theory Spec2Isabelle
  imports Complex_Main "HOL-Library.Sublist"
begin

section \<open>Values\<close>

text \<open>
  The extractor handles Python floats. A finite float is represented by the real number it
  denotes (rounding and the infinities are left out); not-a-number is a value of its own,
  because the source tests for it with \<^verbatim>\<open>energy != energy\<close>. Arithmetic with a
  not-a-number operand gives not-a-number, every comparison with it is false.
\<close>

datatype pyfloat = Fin real | NaN

fun fadd :: "pyfloat \<Rightarrow> pyfloat \<Rightarrow> pyfloat" where
  "fadd (Fin a) (Fin b) = Fin (a + b)"
| "fadd _ _ = NaN"

fun fsub :: "pyfloat \<Rightarrow> pyfloat \<Rightarrow> pyfloat" where
  "fsub (Fin a) (Fin b) = Fin (a - b)"
| "fsub _ _ = NaN"

fun fmul :: "pyfloat \<Rightarrow> pyfloat \<Rightarrow> pyfloat" where
  "fmul (Fin a) (Fin b) = Fin (a * b)"
| "fmul _ _ = NaN"

fun fcos :: "pyfloat \<Rightarrow> pyfloat" where
  "fcos (Fin a) = Fin (cos a)"
| "fcos NaN = NaN"

fun fsin :: "pyfloat \<Rightarrow> pyfloat" where
  "fsin (Fin a) = Fin (sin a)"
| "fsin NaN = NaN"

fun fsqrt :: "pyfloat \<Rightarrow> pyfloat" where
  "fsqrt (Fin a) = (if a < 0 then NaN else Fin (sqrt a))"
| "fsqrt NaN = NaN"

fun feq :: "pyfloat \<Rightarrow> pyfloat \<Rightarrow> bool" where
  "feq (Fin a) (Fin b) = (a = b)"
| "feq _ _ = False"

fun flt :: "pyfloat \<Rightarrow> pyfloat \<Rightarrow> bool" where
  "flt (Fin a) (Fin b) = (a < b)"
| "flt _ _ = False"

definition fne :: "pyfloat \<Rightarrow> pyfloat \<Rightarrow> bool" where
  "fne a b = (\<not> feq a b)"

text \<open>The exceptions that the modelled code can raise, and the one the specification names.\<close>

datatype error =
    KeyError
  | IndexError
  | TypeError
  | AttributeError
  | NameError
  | AssertionError
  | ZeroDivisionError
  | MissingContextError

text \<open>Python's true division of floats raises on a zero divisor.\<close>

fun py_truediv :: "pyfloat \<Rightarrow> pyfloat \<Rightarrow> error + pyfloat" where
  "py_truediv (Fin a) (Fin b) = (if b = 0 then Inl ZeroDivisionError else Inr (Fin (a / b)))"
| "py_truediv NaN (Fin b) = (if b = 0 then Inl ZeroDivisionError else Inr NaN)"
| "py_truediv _ NaN = Inr NaN"

text \<open>The values a field of the output record can hold.\<close>

datatype pyval = VInt int | VFloat pyfloat | VStr string | VBool bool | VNone

type_synonym field_map = "string \<rightharpoonup> pyval"

text \<open>The number a value stands for in arithmetic; a string or None is a type error.\<close>

fun as_float :: "pyval \<Rightarrow> error + pyfloat" where
  "as_float (VFloat a) = Inr a"
| "as_float (VInt i) = Inr (Fin (of_int i))"
| "as_float (VBool b) = Inr (Fin (of_bool b))"
| "as_float _ = Inl TypeError"

definition getitem :: "field_map \<Rightarrow> string \<Rightarrow> error + pyval" where
  "getitem d k = (case d k of None \<Rightarrow> Inl KeyError | Some v \<Rightarrow> Inr v)"

section \<open>Strings\<close>

text \<open>\<^verbatim>\<open>sub in s\<close> on strings: \<open>sub\<close> occurs in \<open>s\<close> as a contiguous piece.\<close>

fun py_in :: "string \<Rightarrow> string \<Rightarrow> bool" where
  "py_in sub [] = (sub = [])"
| "py_in sub (c # cs) = (prefix sub (c # cs) \<or> py_in sub cs)"

text \<open>\<^verbatim>\<open>str.lower\<close> on a path of ASCII characters.\<close>

definition lower_char :: "char \<Rightarrow> char" where
  "lower_char c =
     (case map_of (zip ''ABCDEFGHIJKLMNOPQRSTUVWXYZ'' ''abcdefghijklmnopqrstuvwxyz'') c of
        None \<Rightarrow> c
      | Some d \<Rightarrow> d)"

definition lower :: "string \<Rightarrow> string" where
  "lower s = map lower_char s"

section \<open>Event records\<close>

text \<open>
  An I3Particle as the extractor reads it. \<open>ident\<close> is the particle's identifier, by
  which the tree finds the daughters of a particle it is handed.
\<close>

datatype particle_type = Hadrons | OtherType int

record particle =
  ident :: nat
  energy :: pyfloat
  pos_x :: pyfloat
  pos_y :: pyfloat
  pos_z :: pyfloat
  dir_azimuth :: pyfloat
  dir_zenith :: pyfloat
  pdg_encoding :: int
  ptype :: particle_type
  shape :: string
  length_p :: pyfloat
  total_energy :: pyfloat

text \<open>\<^verbatim>\<open>a.pos == b.pos\<close>: the three coordinates are equal as floats.\<close>

definition pos_eq :: "particle \<Rightarrow> particle \<Rightarrow> bool" where
  "pos_eq a b = (feq (pos_x a) (pos_x b) \<and> feq (pos_y a) (pos_y b) \<and> feq (pos_z a) (pos_z b))"

text \<open>
  The I3MCTree, by the three operations the extractor uses: indexing (\<open>entries\<close>, in the
  tree's iteration order), \<^verbatim>\<open>primaries\<close>, and \<^verbatim>\<open>get_daughters\<close>, which looks the
  particle up by its identifier. \<open>'a\<close> is what stands for a particle: the particle itself
  here, an address in the section on the object store.
\<close>

record 'a mctree =
  entries :: "'a list"
  primaries :: "'a list"
  children :: "(nat \<times> 'a list) list"

definition tree_item :: "'a mctree \<Rightarrow> nat \<Rightarrow> error + 'a" where
  "tree_item t i = (if i < length (entries t) then Inr (entries t ! i) else Inl IndexError)"

definition daughters_of :: "'a mctree \<Rightarrow> nat \<Rightarrow> 'a list" where
  "daughters_of t i = (case map_of (children t) i of None \<Rightarrow> [] | Some ds \<Rightarrow> ds)"

definition get_daughters :: "particle mctree \<Rightarrow> particle \<Rightarrow> particle list" where
  "get_daughters t p = daughters_of t (ident p)"

record header =
  run_id :: int
  sub_run_id :: int
  event_id :: int
  sub_event_id :: int
  sub_event_stream :: string
  start_time_utc_daq_time :: int

text \<open>
  A physics frame: each key the extractor looks up, absent (\<open>None\<close>) or present. The five
  oscNext flags and the legacy filter flag are entries of \<open>bools\<close>, keyed by their name.
\<close>

record 'a frame =
  mc_flag :: bool
  noise_flag :: bool
  I3EventHeader :: "header option"
  FilterMask :: "(string \<rightharpoonup> bool) option"
  bools :: "string \<rightharpoonup> bool"
  MCInIcePrimary :: "'a option"
  I3MCTree :: "'a mctree option"
  I3MCWeightDict :: "(string \<rightharpoonup> pyfloat) option"
  I3GENIEResultDict :: "(string \<rightharpoonup> pyfloat) option"

text \<open>
  Modelled from the spec: \<^verbatim>\<open>frame_is_montecarlo\<close> and \<^verbatim>\<open>frame_is_noise\<close> of
  \<^verbatim>\<open>graphnet.data.extractors.utilities\<close>, which phase 1 describes as reading the
  Monte-Carlo flag and the noise flag of the record.
\<close>

definition frame_is_montecarlo :: "'a frame \<Rightarrow> bool" where
  "frame_is_montecarlo f = mc_flag f"

definition frame_is_noise :: "'a frame \<Rightarrow> bool" where
  "frame_is_noise f = noise_flag f"

section \<open>The extractor\<close>

text \<open>
  The fields of \<^verbatim>\<open>I3Extractor\<close> that the truth extractor reads, and the fiducial
  border of \<^verbatim>\<open>I3TruthExtractor\<close>: the outline in the plane and the depth range.
\<close>

record extractor =
  i3_file :: "string option"
  gcd_file :: "string option"
  name :: string
  borders :: "(real \<times> real) list \<times> (real \<times> real)"

definition default_borders :: "(real \<times> real) list \<times> (real \<times> real)" where
  "default_borders =
     ([(-256.1400146484375, -521.0800170898438),
       (-132.8000030517578, -501.45001220703125),
       (-9.13000011444092, -481.739990234375),
       (114.38999938964844, -461.989990234375),
       (237.77999877929688, -442.4200134277344),
       (361.0, -422.8299865722656),
       (405.8299865722656, -306.3800048828125),
       (443.6000061035156, -194.16000366210938),
       (500.42999267578125, -58.45000076293945),
       (544.0700073242188, 55.88999938964844),
       (576.3699951171875, 170.9199981689453),
       (505.2699890136719, 257.8800048828125),
       (429.760009765625, 351.0199890136719),
       (338.44000244140625, 463.7200012207031),
       (224.5800018310547, 432.3500061035156),
       (101.04000091552734, 412.7900085449219),
       (22.11000061035156, 509.5),
       (-101.05999755859375, 490.2200012207031),
       (-224.08999633789062, 470.8599853515625),
       (-347.8800048828125, 451.5199890136719),
       (-392.3800048828125, 334.239990234375),
       (-437.0400085449219, 217.8000030517578),
       (-481.6000061035156, 101.38999938964844),
       (-526.6300048828125, -15.60000038146973),
       (-570.9000244140625, -125.13999938964844),
       (-492.42999267578125, -230.16000366210938),
       (-413.4599914550781, -327.2699890136719),
       (-334.79998779296875, -424.5)],
      (-512.82, 524.56))"

text \<open>\<^verbatim>\<open>I3TruthExtractor.__init__\<close>: no file is set; the border defaults to the outline above.\<close>

definition init :: "string \<Rightarrow> ((real \<times> real) list \<times> (real \<times> real)) option \<Rightarrow> extractor" where
  "init nm b =
     \<lparr>i3_file = None, gcd_file = None, name = nm,
      borders = (case b of None \<Rightarrow> default_borders | Some bs \<Rightarrow> bs)\<rparr>"

text \<open>
  \<^verbatim>\<open>set_files\<close>: the two paths are stored. (It then loads the geometry and calibration
  frames from the file, which the truth extractor never reads.)
\<close>

definition set_files :: "extractor \<Rightarrow> string \<Rightarrow> string \<Rightarrow> extractor" where
  "set_files self i3_path gcd_path = self\<lparr>i3_file := Some i3_path, gcd_file := Some gcd_path\<rparr>"

subsection \<open>Simulation type\<close>

text \<open>
  \<^verbatim>\<open>_find_data_type\<close>. The path is the extractor's \<^verbatim>\<open>_i3_file\<close>, which is None until
  \<^verbatim>\<open>set_files\<close> has run; \<^verbatim>\<open>"muon" in None\<close> is a TypeError.
\<close>

definition find_data_type :: "bool \<Rightarrow> string option \<Rightarrow> error + string" where
  "find_data_type mc input_file =
     (let sim_type = (if \<not> mc then ''data'' else ''NuGen'') in
      case input_file of
        None \<Rightarrow> Inl TypeError
      | Some path \<Rightarrow>
          (let sim_type = (if py_in ''muon'' path then ''muongun'' else sim_type);
               sim_type = (if py_in ''corsika'' path then ''corsika'' else sim_type);
               sim_type = (if py_in ''genie'' path \<or> py_in ''nu'' (lower path)
                           then ''genie'' else sim_type);
               sim_type = (if py_in ''noise'' path then ''noise'' else sim_type);
               sim_type = (if py_in ''L2'' path then ''dbang'' else sim_type)
           in Inr sim_type))"

text \<open>\<^verbatim>\<open>frame[key]\<close> raises KeyError for an absent key.\<close>

definition lookup :: "'v option \<Rightarrow> error + 'v" where
  "lookup entry = (case entry of None \<Rightarrow> Inl KeyError | Some v \<Rightarrow> Inr v)"

subsection \<open>The primary particle, interaction type and elasticity\<close>

text \<open>
  \<^verbatim>\<open>_get_primary_particle_interaction_type_and_elasticity\<close>. The not-a-number test
  follows the try block that picks the particle, whichever branch picked it.
\<close>

definition get_primary_particle_interaction_type_and_elasticity ::
  "particle frame \<Rightarrow> string \<Rightarrow> pyval \<Rightarrow> error + (particle option \<times> pyval \<times> pyval)" where
  "get_primary_particle_interaction_type_and_elasticity frame sim_type padding_value =
     (case
        (if sim_type \<noteq> ''noise'' then
           (case (case MCInIcePrimary frame of
                    Some p \<Rightarrow> Inr p
                  | None \<Rightarrow>
                      (case lookup (I3MCTree frame) of
                         Inl e \<Rightarrow> Inl e
                       | Inr t \<Rightarrow> tree_item t 0)) of
              Inl e \<Rightarrow> Inl e
            | Inr p \<Rightarrow>
                if fne (energy p) (energy p) then
                  (case lookup (I3MCTree frame) of
                     Inl e \<Rightarrow> Inl e
                   | Inr t \<Rightarrow> (case tree_item t 1 of Inl e \<Rightarrow> Inl e | Inr q \<Rightarrow> Inr (Some q)))
                else Inr (Some p))
         else Inr None) of
        Inl e \<Rightarrow> Inl e
      | Inr primary \<Rightarrow>
          (let interaction_type =
                 (case I3MCWeightDict frame of
                    None \<Rightarrow> padding_value
                  | Some d \<Rightarrow>
                      (case d ''InteractionType'' of None \<Rightarrow> padding_value | Some v \<Rightarrow> VFloat v));
               elasticity =
                 (case I3GENIEResultDict frame of
                    None \<Rightarrow> padding_value
                  | Some d \<Rightarrow> (case d ''y'' of None \<Rightarrow> padding_value | Some v \<Rightarrow> VFloat v))
           in Inr (primary, interaction_type, elasticity)))"

subsection \<open>Track energy and inelasticity\<close>

text \<open>\<^verbatim>\<open>sum\<close> starts from the integer 0, which is what it returns for no summands.\<close>

definition py_sum :: "pyfloat list \<Rightarrow> pyval" where
  "py_sum xs = (if xs = [] then VInt 0 else VFloat (foldl fadd (Fin 0) xs))"

definition get_primary_track_energy_and_inelasticity ::
  "particle frame \<Rightarrow> error + (pyval \<times> pyval)" where
  "get_primary_track_energy_and_inelasticity frame =
     (case lookup (I3MCTree frame) of
        Inl e \<Rightarrow> Inl e
      | Inr mc_tree \<Rightarrow>
          (case primaries mc_tree of
             [] \<Rightarrow> Inl IndexError
           | primary # _ \<Rightarrow>
               (let ds = get_daughters mc_tree primary;
                    tracks = filter (\<lambda>d. shape d = ''StartingTrack'' \<or> shape d = ''Dark'') ds;
                    energy_total = total_energy primary;
                    energy_track = py_sum (map total_energy tracks)
                in case as_float energy_track of
                     Inl e \<Rightarrow> Inl e
                   | Inr et \<Rightarrow>
                       (case py_truediv et energy_total of
                          Inl e \<Rightarrow> Inl e
                        | Inr r \<Rightarrow> Inr (energy_track, VFloat (fsub (Fin 1) r))))))"

subsection \<open>Decay length\<close>

text \<open>
  The loop over the two daughters of the primary: the last daughter of type Hadrons is
  \<^verbatim>\<open>casc_0_true\<close>, the last other one \<^verbatim>\<open>hnl_true\<close>. A name that was never assigned
  is \<open>None\<close>; reading it is a NameError.
\<close>

fun assign_daughters ::
  "particle list \<Rightarrow> particle option \<times> particle option \<Rightarrow> particle option \<times> particle option" where
  "assign_daughters [] acc = acc"
| "assign_daughters (d # ds) (casc_0_true, hnl_true) =
     (if ptype d = Hadrons then assign_daughters ds (Some d, hnl_true)
      else assign_daughters ds (casc_0_true, Some d))"

text \<open>
  The loop over the daughters of the candidate, with the counter of \<^verbatim>\<open>enumerate\<close>: the
  first daughter becomes \<^verbatim>\<open>casc_1_true\<close>, each later one must sit at its position and
  adds its energy to it.
\<close>

fun merge_hnl_daughters ::
  "particle list \<Rightarrow> nat \<Rightarrow> particle option \<Rightarrow> error + particle option" where
  "merge_hnl_daughters [] n casc_1_true = Inr casc_1_true"
| "merge_hnl_daughters (d # ds) n casc_1_true =
     (if n = 0 then merge_hnl_daughters ds (Suc n) (Some d)
      else (case casc_1_true of
              None \<Rightarrow> Inl NameError
            | Some c \<Rightarrow>
                if pos_eq c d
                then merge_hnl_daughters ds (Suc n) (Some (c\<lparr>energy := fadd (energy c) (energy d)\<rparr>))
                else Inl AssertionError))"

text \<open>
  \<^verbatim>\<open>phys_services.I3Calculator.distance\<close>: the distance of the two particles' positions;
  \<^verbatim>\<open>icetray.I3Units.m\<close> is the unit 1.
\<close>

definition I3Calculator_distance :: "particle \<Rightarrow> particle \<Rightarrow> pyfloat" where
  "I3Calculator_distance a b =
     (let dx = fsub (pos_x a) (pos_x b);
          dy = fsub (pos_y a) (pos_y b);
          dz = fsub (pos_z a) (pos_z b)
      in fsqrt (fadd (fadd (fmul dx dx) (fmul dy dy)) (fmul dz dz)))"

definition I3Units_m :: pyfloat where
  "I3Units_m = Fin 1"

text \<open>
  The body of the try block of \<^verbatim>\<open>_extract_dbang_decay_length\<close>, in its two
  conditionals: the one that looks for the two cascades among the daughters of the primary,
  and the one that merges the daughters of the candidate and measures the distance.
\<close>

definition find_cascades ::
  "particle mctree \<Rightarrow> particle list \<Rightarrow> error + (particle option \<times> particle list)" where
  "find_cascades mctree p_daughters =
     (if length p_daughters = 2 then
        (case assign_daughters p_daughters (None, None) of
           (casc_0_true, None) \<Rightarrow> Inl NameError
         | (casc_0_true, Some hnl_true) \<Rightarrow> Inr (casc_0_true, get_daughters mctree hnl_true))
      else Inr (None, []))"

definition merge_and_measure ::
  "particle option \<Rightarrow> particle list \<Rightarrow> pyval \<Rightarrow> error + pyval" where
  "merge_and_measure casc_0_true hnl_daughters padding_value =
     (if length hnl_daughters > 0 then
        (case merge_hnl_daughters hnl_daughters 0 None of
           Inl e \<Rightarrow> Inl e
         | Inr casc_1_true \<Rightarrow>
             (case (casc_0_true, casc_1_true) of
                (Some c0, Some c1) \<Rightarrow>
                  (case py_truediv (I3Calculator_distance c0 c1) I3Units_m of
                     Inl e \<Rightarrow> Inl e
                   | Inr v \<Rightarrow> Inr (VFloat v))
              | _ \<Rightarrow> Inl NameError))
      else Inr padding_value)"

definition dbang_try :: "particle mctree \<Rightarrow> pyval \<Rightarrow> error + pyval" where
  "dbang_try mctree padding_value =
     (case primaries mctree of
        [] \<Rightarrow> Inl IndexError
      | p_true # _ \<Rightarrow>
          (let p_daughters = get_daughters mctree p_true in
           case find_cascades mctree p_daughters of
             Inl e \<Rightarrow> Inl e
           | Inr (casc_0_true, hnl_daughters) \<Rightarrow>
               merge_and_measure casc_0_true hnl_daughters padding_value))"

text \<open>
  \<^verbatim>\<open>_extract_dbang_decay_length\<close>: the tree is read from the frame before the try block;
  whatever is raised inside the block is turned into the padding value.
\<close>

definition extract_dbang_decay_length :: "particle frame \<Rightarrow> pyval \<Rightarrow> error + pyval" where
  "extract_dbang_decay_length frame padding_value =
     (case lookup (I3MCTree frame) of
        Inl e \<Rightarrow> Inl e
      | Inr mctree \<Rightarrow>
          Inr (case dbang_try mctree padding_value of
                 Inl e \<Rightarrow> padding_value
               | Inr v \<Rightarrow> v))"

subsection \<open>Where a muon stops\<close>

text \<open>
  \<^verbatim>\<open>matplotlib.path.Path.contains_point\<close> belongs to a library; it is a parameter
  \<open>contains_point\<close> of the model, applied to the outline, the point and the radius.
\<close>

type_synonym point_test = "(real \<times> real) list \<Rightarrow> pyfloat \<times> pyfloat \<Rightarrow> real \<Rightarrow> bool"

definition item_float :: "field_map \<Rightarrow> string \<Rightarrow> error + pyfloat" where
  "item_float d k = (case getitem d k of Inl e \<Rightarrow> Inl e | Inr v \<Rightarrow> as_float v)"

text \<open>
  \<^verbatim>\<open>_muon_stopped\<close>. The result is the dictionary with the keys x, y, z and stopped, as
  a tuple in that order. A product of two truth values is the number 1 when both hold and
  0 otherwise.
\<close>

definition muon_stopped ::
  "point_test \<Rightarrow> field_map \<Rightarrow> (real \<times> real) list \<times> (real \<times> real) \<Rightarrow> real \<Rightarrow> real
     \<Rightarrow> error + (pyfloat \<times> pyfloat \<times> pyfloat \<times> pyval)" where
  "muon_stopped contains_point truth bs horizontal_pad vertical_pad =
     (case item_float truth ''position_x'' of Inl e \<Rightarrow> Inl e | Inr sx \<Rightarrow>
      case item_float truth ''position_y'' of Inl e \<Rightarrow> Inl e | Inr sy \<Rightarrow>
      case item_float truth ''position_z'' of Inl e \<Rightarrow> Inl e | Inr sz \<Rightarrow>
      case item_float truth ''track_length'' of Inl e \<Rightarrow> Inl e | Inr len \<Rightarrow>
      case item_float truth ''azimuth'' of Inl e \<Rightarrow> Inl e | Inr az \<Rightarrow>
      case item_float truth ''zenith'' of Inl e \<Rightarrow> Inl e | Inr zen \<Rightarrow>
        (let travel_x = fmul (Fin (- 1)) (fmul (fmul len (fcos az)) (fsin zen));
             travel_y = fmul (Fin (- 1)) (fmul (fmul len (fsin az)) (fsin zen));
             travel_z = fmul (Fin (- 1)) (fmul len (fcos zen));
             end_x = fadd sx travel_x;
             end_y = fadd sy travel_y;
             end_z = fadd sz travel_z;
             stopped_xy = contains_point (fst bs) (end_x, end_y) (- horizontal_pad);
             stopped_z =
               (of_bool (flt (Fin (fst (snd bs) + vertical_pad)) end_z) :: int)
               * of_bool (flt end_z (Fin (snd (snd bs) - vertical_pad)))
         in Inr (end_x, end_y, end_z, VInt (of_bool stopped_xy * stopped_z))))"

subsection \<open>The truth record\<close>

text \<open>The dictionary that \<^verbatim>\<open>__call__\<close> starts from (lines 71 to 101).\<close>

definition initial_output :: "header \<Rightarrow> string \<Rightarrow> pyval \<Rightarrow> field_map" where
  "initial_output hdr sim_type padding_value =
     map_of
       [(''energy'', padding_value),
        (''position_x'', padding_value),
        (''position_y'', padding_value),
        (''position_z'', padding_value),
        (''azimuth'', padding_value),
        (''zenith'', padding_value),
        (''pid'', padding_value),
        (''event_time'', VInt (start_time_utc_daq_time hdr)),
        (''sim_type'', VStr sim_type),
        (''interaction_type'', padding_value),
        (''elasticity'', padding_value),
        (''RunID'', VInt (run_id hdr)),
        (''SubrunID'', VInt (sub_run_id hdr)),
        (''EventID'', VInt (event_id hdr)),
        (''SubEventID'', VInt (sub_event_id hdr)),
        (''dbang_decay_length'', padding_value),
        (''track_length'', padding_value),
        (''stopped_muon'', padding_value),
        (''energy_track'', padding_value),
        (''inelasticity'', padding_value),
        (''DeepCoreFilter_13'', padding_value),
        (''CascadeFilter_13'', padding_value),
        (''MuonFilter_13'', padding_value),
        (''OnlineL2Filter_17'', padding_value),
        (''L3_oscNext_bool'', padding_value),
        (''L4_oscNext_bool'', padding_value),
        (''L5_oscNext_bool'', padding_value),
        (''L6_oscNext_bool'', padding_value),
        (''L7_oscNext_bool'', padding_value)]"

text \<open>
  \<^verbatim>\<open>if k in m: output[k] = int(m[k])\<close>, for a map \<open>m\<close> of truth values: the FilterMask,
  or the frame itself for the flags it holds.
\<close>

definition set_flag :: "(string \<rightharpoonup> bool) \<Rightarrow> string \<Rightarrow> field_map \<Rightarrow> field_map" where
  "set_flag m k out = (case m k of None \<Rightarrow> out | Some b \<Rightarrow> out(k \<mapsto> VInt (of_bool b)))"

text \<open>Lines 109 to 128: the filter mask, or else the legacy flag of the frame.\<close>

definition filter_flags :: "'a frame \<Rightarrow> field_map \<Rightarrow> field_map" where
  "filter_flags frame out =
     (case FilterMask frame of
        Some fm \<Rightarrow>
          set_flag fm ''OnlineL2Filter_17''
            (set_flag fm ''MuonFilter_13''
              (set_flag fm ''CascadeFilter_13''
                (set_flag fm ''DeepCoreFilter_13'' out)))
      | None \<Rightarrow> set_flag (bools frame) ''DeepCoreFilter_13'' out)"

text \<open>Lines 130 to 143: the five oscNext flags.\<close>

definition oscnext_flags :: "'a frame \<Rightarrow> field_map \<Rightarrow> field_map" where
  "oscnext_flags frame out =
     set_flag (bools frame) ''L7_oscNext_bool''
       (set_flag (bools frame) ''L6_oscNext_bool''
         (set_flag (bools frame) ''L5_oscNext_bool''
           (set_flag (bools frame) ''L4_oscNext_bool''
             (set_flag (bools frame) ''L3_oscNext_bool'' out))))"

text \<open>\<^verbatim>\<open>abs(output["pid"]) == 13\<close>.\<close>

definition abs_pid_is_13 :: "field_map \<Rightarrow> error + bool" where
  "abs_pid_is_13 out =
     (case getitem out ''pid'' of
        Inl e \<Rightarrow> Inl e
      | Inr (VInt n) \<Rightarrow> Inr (\<bar>n\<bar> = 13)
      | Inr (VFloat a) \<Rightarrow> Inr (feq (case a of Fin r \<Rightarrow> Fin \<bar>r\<bar> | NaN \<Rightarrow> NaN) (Fin 13))
      | Inr (VBool b) \<Rightarrow> Inr False
      | Inr _ \<Rightarrow> Inl TypeError)"

text \<open>The first \<^verbatim>\<open>output.update\<close> of the Monte-Carlo block (lines 157 to 174).\<close>

definition primary_update ::
  "field_map \<Rightarrow> particle \<Rightarrow> pyval \<Rightarrow> pyval \<Rightarrow> pyval \<Rightarrow> pyval \<Rightarrow> pyval \<Rightarrow> field_map" where
  "primary_update out p interaction_type elasticity decay_length energy_track inelasticity =
     out(''energy'' \<mapsto> VFloat (energy p),
         ''position_x'' \<mapsto> VFloat (pos_x p),
         ''position_y'' \<mapsto> VFloat (pos_y p),
         ''position_z'' \<mapsto> VFloat (pos_z p),
         ''azimuth'' \<mapsto> VFloat (dir_azimuth p),
         ''zenith'' \<mapsto> VFloat (dir_zenith p),
         ''pid'' \<mapsto> VInt (pdg_encoding p),
         ''interaction_type'' \<mapsto> interaction_type,
         ''elasticity'' \<mapsto> elasticity,
         ''dbang_decay_length'' \<mapsto> decay_length,
         ''energy_track'' \<mapsto> energy_track,
         ''inelasticity'' \<mapsto> inelasticity)"

text \<open>The last \<^verbatim>\<open>output.update\<close>, with the muon's final position (lines 182 to 191).\<close>

definition muon_update :: "field_map \<Rightarrow> pyfloat \<times> pyfloat \<times> pyfloat \<times> pyval \<Rightarrow> field_map" where
  "muon_update out muon_final =
     (case muon_final of
        (mx, my, mz, stopped) \<Rightarrow>
          out(''position_x'' \<mapsto> VFloat mx,
              ''position_y'' \<mapsto> VFloat my,
              ''position_z'' \<mapsto> VFloat mz,
              ''stopped_muon'' \<mapsto> stopped))"

text \<open>
  \<^verbatim>\<open>I3TruthExtractor.__call__\<close>. The helper for the primary is called without a padding
  value, so its own default -1 applies there. The dictionary of the first update is built
  entry by entry: the attributes of the primary are read (None has none of them), then the
  decay length is computed.
\<close>

definition call :: "point_test \<Rightarrow> extractor \<Rightarrow> particle frame \<Rightarrow> pyval \<Rightarrow> error + field_map" where
  "call contains_point self frame padding_value =
     (let is_mc = frame_is_montecarlo frame;
          is_noise = frame_is_noise frame
      in
      case find_data_type is_mc (i3_file self) of Inl e \<Rightarrow> Inl e | Inr sim_type \<Rightarrow>
      case lookup (I3EventHeader frame) of Inl e \<Rightarrow> Inl e | Inr hdr \<Rightarrow>
        (let out = initial_output hdr sim_type padding_value in
         if sub_event_stream hdr \<noteq> ''InIceSplit'' then Inr out
         else
           (let out = oscnext_flags frame (filter_flags frame out) in
            if is_mc \<and> \<not> is_noise then
              (case get_primary_particle_interaction_type_and_elasticity frame sim_type (VInt (- 1)) of
                 Inl e \<Rightarrow> Inl e
               | Inr (primary, interaction_type, elasticity) \<Rightarrow>
              case get_primary_track_energy_and_inelasticity frame of
                 Inl e \<Rightarrow> Inl e
               | Inr (energy_track, inelasticity) \<Rightarrow>
              case primary of
                 None \<Rightarrow> Inl AttributeError
               | Some p \<Rightarrow>
              case extract_dbang_decay_length frame padding_value of
                 Inl e \<Rightarrow> Inl e
               | Inr decay_length \<Rightarrow>
                (let out = primary_update out p interaction_type elasticity decay_length
                             energy_track inelasticity
                 in
                 case abs_pid_is_13 out of
                   Inl e \<Rightarrow> Inl e
                 | Inr False \<Rightarrow> Inr out
                 | Inr True \<Rightarrow>
                     (let out = out(''track_length'' \<mapsto> VFloat (length_p p)) in
                      case muon_stopped contains_point out (borders self) 100 100 of
                        Inl e \<Rightarrow> Inl e
                      | Inr muon_final \<Rightarrow> Inr (muon_update out muon_final))))
            else Inr out)))"

section \<open>Notions of the specification\<close>

text \<open>The seven tags that the specification lists for the simulation type.\<close>

definition sim_types :: "string list" where
  "sim_types = [''data'', ''NuGen'', ''muongun'', ''corsika'', ''genie'', ''noise'', ''dbang'']"

text \<open>
  The override rules in the order of the specification (section 4.2), each a test on the
  path with the tag it sets, and the reading of the rules under which the last rule that
  matches decides, the start tag standing when none does.
\<close>

definition override_rules :: "((string \<Rightarrow> bool) \<times> string) list" where
  "override_rules =
     [(py_in ''muon'', ''muongun''),
      (py_in ''corsika'', ''corsika''),
      (\<lambda>path. py_in ''genie'' path \<or> py_in ''nu'' (lower path), ''genie''),
      (py_in ''noise'', ''noise''),
      (py_in ''L2'', ''dbang'')]"

definition last_match_wins ::
  "string \<Rightarrow> ((string \<Rightarrow> bool) \<times> string) list \<Rightarrow> string \<Rightarrow> string" where
  "last_match_wins start rules path =
     (case rev (filter (\<lambda>r. fst r path) rules) of [] \<Rightarrow> start | r # _ \<Rightarrow> snd r)"

text \<open>The field names of the truth record, in the order of section 6 of the specification.\<close>

definition schema :: "string list" where
  "schema =
     [''energy'', ''position_x'', ''position_y'', ''position_z'', ''azimuth'', ''zenith'',
      ''pid'', ''event_time'', ''sim_type'', ''interaction_type'', ''elasticity'', ''RunID'',
      ''SubrunID'', ''EventID'', ''SubEventID'', ''dbang_decay_length'', ''track_length'',
      ''stopped_muon'', ''energy_track'', ''inelasticity'', ''DeepCoreFilter_13'',
      ''CascadeFilter_13'', ''MuonFilter_13'', ''OnlineL2Filter_17'', ''L3_oscNext_bool'',
      ''L4_oscNext_bool'', ''L5_oscNext_bool'', ''L6_oscNext_bool'', ''L7_oscNext_bool'']"

text \<open>The fields that are filled before the stream of the event is looked at.\<close>

definition header_fields :: "string list" where
  "header_fields =
     [''event_time'', ''sim_type'', ''RunID'', ''SubrunID'', ''EventID'', ''SubEventID'']"

section \<open>Example records\<close>

definition example_point_test :: point_test where
  "example_point_test outline point radius = True"

definition example_header :: "string \<Rightarrow> header" where
  "example_header stream =
     \<lparr>run_id = 120000, sub_run_id = 0, event_id = 7, sub_event_id = 0,
      sub_event_stream = stream, start_time_utc_daq_time = 1000\<rparr>"

definition example_extractor :: extractor where
  "example_extractor = set_files (init ''truth'' None) ''/data/genie_0001.i3'' ''/data/gcd.i3''"

text \<open>A record of measured data: no Monte-Carlo entries.\<close>

definition data_frame ::
  "string \<Rightarrow> (string \<rightharpoonup> bool) option \<Rightarrow> (string \<rightharpoonup> bool) \<Rightarrow> particle frame" where
  "data_frame stream fm flags =
     \<lparr>mc_flag = False, noise_flag = False, I3EventHeader = Some (example_header stream),
      FilterMask = fm, bools = flags, MCInIcePrimary = None, I3MCTree = None,
      I3MCWeightDict = None, I3GENIEResultDict = None\<rparr>"

text \<open>A particle with the given identifier, type, particle code, energy and x coordinate.\<close>

definition example_particle :: "nat \<Rightarrow> particle_type \<Rightarrow> int \<Rightarrow> pyfloat \<Rightarrow> real \<Rightarrow> particle" where
  "example_particle i tp code e px =
     \<lparr>ident = i, energy = e, pos_x = Fin px, pos_y = Fin 0, pos_z = Fin 0,
      dir_azimuth = Fin 0, dir_zenith = Fin 0, pdg_encoding = code, ptype = tp,
      shape = ''Cascade'', length_p = Fin 50, total_energy = e\<rparr>"

text \<open>A simulated record of the given stream, with or without the named primary and the tree.\<close>

definition mc_frame ::
  "string \<Rightarrow> particle option \<Rightarrow> particle mctree option \<Rightarrow> particle frame" where
  "mc_frame stream prim tree =
     \<lparr>mc_flag = True, noise_flag = False, I3EventHeader = Some (example_header stream),
      FilterMask = None, bools = Map.empty, MCInIcePrimary = prim, I3MCTree = tree,
      I3MCWeightDict = None, I3GENIEResultDict = None\<rparr>"

text \<open>A tree of two muons, the first with a not-a-number energy.\<close>

definition nan_muon :: particle where
  "nan_muon = example_particle 1 (OtherType 13) 13 NaN 0"

definition good_muon :: particle where
  "good_muon = example_particle 2 (OtherType 13) 13 (Fin 100) 0"

definition muon_tree :: "particle mctree" where
  "muon_tree = \<lparr>entries = [nan_muon, good_muon], primaries = [good_muon], children = []\<rparr>"

text \<open>
  The double cascade of the specification (section 4.3, step 5): the primary has exactly two
  daughters, one of them (and not the other) of type Hadrons, and the other has at least one
  daughter of its own, all of them at the position of the first. The result is the hadronic
  cascade and the first daughter of the other, whose position the merged cascade has.
\<close>

definition double_cascade :: "particle mctree \<Rightarrow> (particle \<times> particle) option" where
  "double_cascade t =
     (case primaries t of
        [] \<Rightarrow> None
      | p_true # _ \<Rightarrow>
          (case get_daughters t p_true of
             [d0, d1] \<Rightarrow>
               if (ptype d0 = Hadrons) = (ptype d1 = Hadrons) then None
               else
                 (let casc = (if ptype d0 = Hadrons then d0 else d1);
                      hnl = (if ptype d0 = Hadrons then d1 else d0)
                  in case get_daughters t hnl of
                       [] \<Rightarrow> None
                     | c # cs \<Rightarrow> if (\<forall>d \<in> set cs. pos_eq c d) then Some (casc, c) else None)
           | _ \<Rightarrow> None))"

text \<open>
  A neutrino with a hadronic cascade and a second daughter, which has two daughters of its
  own one metre away; and the same tree with the second daughter of type Hadrons as well.
\<close>

definition dbang_tree :: "particle_type \<Rightarrow> particle mctree" where
  "dbang_tree second_type =
     (let nu = example_particle 1 (OtherType 16) 16 (Fin 100) 0;
          had = example_particle 2 Hadrons (- 2000001006) (Fin 40) 0;
          hnl = example_particle 3 second_type 9900016 (Fin 60) 0;
          casc_a = example_particle 4 (OtherType 11) 11 (Fin 5) 1;
          casc_b = example_particle 5 (OtherType 11) 11 (Fin 7) 1
      in \<lparr>entries = [nu, had, hnl, casc_a, casc_b], primaries = [nu],
          children = [(1, [had, hnl]), (3, [casc_a, casc_b])]\<rparr>)"

text \<open>
  The geometry utilities of the specification (section 4.4): the point reached from the
  origin by the displacement \<open>- length (cos azimuth sin zenith, sin azimuth sin zenith,
  cos zenith)\<close>, and the vertical range shrunk by a pad on each side.
\<close>

fun fneg :: "pyfloat \<Rightarrow> pyfloat" where
  "fneg (Fin a) = Fin (- a)"
| "fneg NaN = NaN"

definition project ::
  "pyfloat \<times> pyfloat \<times> pyfloat \<Rightarrow> pyfloat \<Rightarrow> pyfloat \<Rightarrow> pyfloat \<Rightarrow> pyfloat \<times> pyfloat \<times> pyfloat" where
  "project origin len azimuth zenith =
     (case origin of
        (ox, oy, oz) \<Rightarrow>
          (fadd ox (fmul (fneg len) (fmul (fcos azimuth) (fsin zenith))),
           fadd oy (fmul (fneg len) (fmul (fsin azimuth) (fsin zenith))),
           fadd oz (fmul (fneg len) (fcos zenith))))"

definition in_vertical_range :: "pyfloat \<Rightarrow> real \<Rightarrow> real \<Rightarrow> real \<Rightarrow> bool" where
  "in_vertical_range z z_min z_max pad = (flt (Fin (z_min + pad)) z \<and> flt z (Fin (z_max - pad)))"

text \<open>
  What the Monte-Carlo block needs of a record so as not to raise, for the simulation type
  \<open>st\<close> of the file: the file is not a noise file; the tree is there and has a primary whose
  total energy is not zero; the primary resolves, that is, the tree has a first entry when
  the record names no primary, and a second entry when the energy of the particle taken
  first is not-a-number.
\<close>

definition truth_available :: "particle frame \<Rightarrow> string \<Rightarrow> bool" where
  "truth_available frame st =
     (st \<noteq> ''noise'' \<and>
      (case I3MCTree frame of
         None \<Rightarrow> False
       | Some t \<Rightarrow>
           (case primaries t of
              [] \<Rightarrow> False
            | primary # _ \<Rightarrow> \<not> feq (total_energy primary) (Fin 0))
           \<and> (case MCInIcePrimary frame of
                 Some p \<Rightarrow> energy p = NaN \<longrightarrow> 1 < length (entries t)
               | None \<Rightarrow>
                   entries t \<noteq> [] \<and> (energy (entries t ! 0) = NaN \<longrightarrow> 1 < length (entries t)))))"

text \<open>
  A well-formed record, for an extractor: the extractor's file is set, the record has its
  event header and, if it is a Monte-Carlo, non-noise event of the InIceSplit stream, what
  the Monte-Carlo block needs.
\<close>

definition well_formed :: "extractor \<Rightarrow> particle frame \<Rightarrow> bool" where
  "well_formed self frame =
     (case (find_data_type (frame_is_montecarlo frame) (i3_file self), I3EventHeader frame) of
        (Inr st, Some hdr) \<Rightarrow>
          sub_event_stream hdr = ''InIceSplit'' \<and> frame_is_montecarlo frame
            \<and> \<not> frame_is_noise frame
          \<longrightarrow> truth_available frame st
      | _ \<Rightarrow> False)"


section \<open>The object store\<close>

text \<open>
  The decay-length computation assigns to the energy of a particle it was handed by the
  tree. Whether that reaches the particles of the tree is a question of object identity,
  which the functions above do not show: there a particle is a value. Here the particles
  are objects in a store, named by addresses; a record and its tree hold the addresses of
  their particles. The particles are value-like records (section 3 of the specification):
  the accessors of the tree hand out copies, new objects that hold what the tree's
  particles hold, while \<^verbatim>\<open>frame["MCInIcePrimary"]\<close> hands out the object of the record.
\<close>

type_synonym addr = nat

record store =
  objs :: "addr \<Rightarrow> particle"
  fresh :: addr

definition new_object :: "particle \<Rightarrow> store \<Rightarrow> addr \<times> store" where
  "new_object v h = (fresh h, h\<lparr>objs := (objs h)(fresh h := v), fresh := Suc (fresh h)\<rparr>)"

fun new_objects :: "particle list \<Rightarrow> store \<Rightarrow> addr list \<times> store" where
  "new_objects [] h = ([], h)"
| "new_objects (v # vs) h =
     (case new_object v h of
        (a, h1) \<Rightarrow> (case new_objects vs h1 of (as, h2) \<Rightarrow> (a # as, h2)))"

text \<open>\<^verbatim>\<open>obj.energy = e\<close> on the object at an address.\<close>

definition set_energy :: "addr \<Rightarrow> pyfloat \<Rightarrow> store \<Rightarrow> store" where
  "set_energy a e h = h\<lparr>objs := (objs h)(a := (objs h a)\<lparr>energy := e\<rparr>)\<rparr>"

text \<open>
  The accessors of the tree: indexing, \<^verbatim>\<open>primaries\<close> and \<^verbatim>\<open>get_daughters\<close>. The tree
  is an object of the icecube library, which is not among the sources; what is taken from
  the specification is that its particles are value-like records (section 3), so that each
  accessor makes new objects for the particles it hands out.
\<close>

definition tree_item_st :: "addr mctree \<Rightarrow> nat \<Rightarrow> store \<Rightarrow> (error + addr) \<times> store" where
  "tree_item_st t i h =
     (if i < length (entries t)
      then (case new_object (objs h (entries t ! i)) h of (a, h1) \<Rightarrow> (Inr a, h1))
      else (Inl IndexError, h))"

definition primaries_st :: "addr mctree \<Rightarrow> store \<Rightarrow> addr list \<times> store" where
  "primaries_st t h = new_objects (map (objs h) (primaries t)) h"

definition get_daughters_st :: "addr mctree \<Rightarrow> addr \<Rightarrow> store \<Rightarrow> addr list \<times> store" where
  "get_daughters_st t a h = new_objects (map (objs h) (daughters_of t (ident (objs h a)))) h"

text \<open>The methods of the extractor that read particles, on the store.\<close>

text \<open>
  The two blocks of \<^verbatim>\<open>_get_primary_particle_interaction_type_and_elasticity\<close> that
  pick the particle: the try block, and the test for a not-a-number energy.
\<close>

definition pick_primary_st :: "addr frame \<Rightarrow> store \<Rightarrow> (error + addr) \<times> store" where
  "pick_primary_st frame h =
     (case MCInIcePrimary frame of
        Some a \<Rightarrow> (Inr a, h)
      | None \<Rightarrow>
          (case lookup (I3MCTree frame) of
             Inl e \<Rightarrow> (Inl e, h)
           | Inr t \<Rightarrow> tree_item_st t 0 h))"

definition nan_fallback_st :: "addr frame \<Rightarrow> addr \<Rightarrow> store \<Rightarrow> (error + addr option) \<times> store" where
  "nan_fallback_st frame a h1 =
     (if fne (energy (objs h1 a)) (energy (objs h1 a)) then
        (case lookup (I3MCTree frame) of
           Inl e \<Rightarrow> (Inl e, h1)
         | Inr t \<Rightarrow>
             (case tree_item_st t 1 h1 of
                (Inl e, h2) \<Rightarrow> (Inl e, h2)
              | (Inr b, h2) \<Rightarrow> (Inr (Some b), h2)))
      else (Inr (Some a), h1))"

definition get_primary_st ::
  "addr frame \<Rightarrow> string \<Rightarrow> pyval \<Rightarrow> store \<Rightarrow> (error + (addr option \<times> pyval \<times> pyval)) \<times> store" where
  "get_primary_st frame sim_type padding_value h =
     (case
        (if sim_type \<noteq> ''noise'' then
           (case pick_primary_st frame h of
              (Inl e, h1) \<Rightarrow> (Inl e, h1)
            | (Inr a, h1) \<Rightarrow> nan_fallback_st frame a h1)
         else (Inr None, h)) of
        (Inl e, h') \<Rightarrow> (Inl e, h')
      | (Inr primary, h') \<Rightarrow>
          (let interaction_type =
                 (case I3MCWeightDict frame of
                    None \<Rightarrow> padding_value
                  | Some d \<Rightarrow>
                      (case d ''InteractionType'' of None \<Rightarrow> padding_value | Some v \<Rightarrow> VFloat v));
               elasticity =
                 (case I3GENIEResultDict frame of
                    None \<Rightarrow> padding_value
                  | Some d \<Rightarrow> (case d ''y'' of None \<Rightarrow> padding_value | Some v \<Rightarrow> VFloat v))
           in (Inr (primary, interaction_type, elasticity), h')))"

definition track_energy_st :: "addr frame \<Rightarrow> store \<Rightarrow> (error + (pyval \<times> pyval)) \<times> store" where
  "track_energy_st frame h =
     (case lookup (I3MCTree frame) of
        Inl e \<Rightarrow> (Inl e, h)
      | Inr mc_tree \<Rightarrow>
          (case primaries_st mc_tree h of
             ([], h1) \<Rightarrow> (Inl IndexError, h1)
           | (primary # _, h1) \<Rightarrow>
               (case get_daughters_st mc_tree primary h1 of
                  (ds, h2) \<Rightarrow>
                    (let tracks = filter (\<lambda>d. shape (objs h2 d) = ''StartingTrack''
                                            \<or> shape (objs h2 d) = ''Dark'') ds;
                         energy_total = total_energy (objs h2 primary);
                         energy_track = py_sum (map (\<lambda>d. total_energy (objs h2 d)) tracks)
                     in case as_float energy_track of
                          Inl e \<Rightarrow> (Inl e, h2)
                        | Inr et \<Rightarrow>
                            (case py_truediv et energy_total of
                               Inl e \<Rightarrow> (Inl e, h2)
                             | Inr r \<Rightarrow> (Inr (energy_track, VFloat (fsub (Fin 1) r)), h2))))))"

fun assign_daughters_st ::
  "store \<Rightarrow> addr list \<Rightarrow> addr option \<times> addr option \<Rightarrow> addr option \<times> addr option" where
  "assign_daughters_st h [] acc = acc"
| "assign_daughters_st h (d # ds) (casc_0_true, hnl_true) =
     (if ptype (objs h d) = Hadrons then assign_daughters_st h ds (Some d, hnl_true)
      else assign_daughters_st h ds (casc_0_true, Some d))"

text \<open>The merge loop: the assignment to \<^verbatim>\<open>casc_1_true.energy\<close> writes to the store.\<close>

fun merge_hnl_daughters_st ::
  "addr list \<Rightarrow> nat \<Rightarrow> addr option \<Rightarrow> store \<Rightarrow> (error + addr option) \<times> store" where
  "merge_hnl_daughters_st [] n casc_1_true h = (Inr casc_1_true, h)"
| "merge_hnl_daughters_st (d # ds) n casc_1_true h =
     (if n = 0 then merge_hnl_daughters_st ds (Suc n) (Some d) h
      else (case casc_1_true of
              None \<Rightarrow> (Inl NameError, h)
            | Some c \<Rightarrow>
                if pos_eq (objs h c) (objs h d)
                then merge_hnl_daughters_st ds (Suc n) (Some c)
                       (set_energy c (fadd (energy (objs h c)) (energy (objs h d))) h)
                else (Inl AssertionError, h)))"

definition find_cascades_st ::
  "addr mctree \<Rightarrow> addr list \<Rightarrow> store \<Rightarrow> (error + (addr option \<times> addr list)) \<times> store" where
  "find_cascades_st mctree p_daughters h2 =
     (if length p_daughters = 2 then
        (case assign_daughters_st h2 p_daughters (None, None) of
           (casc_0_true, None) \<Rightarrow> (Inl NameError, h2)
         | (casc_0_true, Some hnl_true) \<Rightarrow>
             (case get_daughters_st mctree hnl_true h2 of
                (hnl_daughters, h3) \<Rightarrow> (Inr (casc_0_true, hnl_daughters), h3)))
      else (Inr (None, []), h2))"

definition merge_and_measure_st ::
  "addr option \<Rightarrow> addr list \<Rightarrow> pyval \<Rightarrow> store \<Rightarrow> (error + pyval) \<times> store" where
  "merge_and_measure_st casc_0_true hnl_daughters padding_value h3 =
     (if length hnl_daughters > 0 then
        (case merge_hnl_daughters_st hnl_daughters 0 None h3 of
           (Inl e, h4) \<Rightarrow> (Inl e, h4)
         | (Inr casc_1_true, h4) \<Rightarrow>
             (case (casc_0_true, casc_1_true) of
                (Some c0, Some c1) \<Rightarrow>
                  (case py_truediv (I3Calculator_distance (objs h4 c0) (objs h4 c1)) I3Units_m of
                     Inl e \<Rightarrow> (Inl e, h4)
                   | Inr v \<Rightarrow> (Inr (VFloat v), h4))
              | _ \<Rightarrow> (Inl NameError, h4)))
      else (Inr padding_value, h3))"

definition dbang_try_st :: "addr mctree \<Rightarrow> pyval \<Rightarrow> store \<Rightarrow> (error + pyval) \<times> store" where
  "dbang_try_st mctree padding_value h =
     (case primaries_st mctree h of
        ([], h1) \<Rightarrow> (Inl IndexError, h1)
      | (p_true # _, h1) \<Rightarrow>
          (case get_daughters_st mctree p_true h1 of
             (p_daughters, h2) \<Rightarrow>
               (case find_cascades_st mctree p_daughters h2 of
                  (Inl e, h3) \<Rightarrow> (Inl e, h3)
                | (Inr (casc_0_true, hnl_daughters), h3) \<Rightarrow>
                    merge_and_measure_st casc_0_true hnl_daughters padding_value h3)))"

definition extract_dbang_decay_length_st ::
  "addr frame \<Rightarrow> pyval \<Rightarrow> store \<Rightarrow> (error + pyval) \<times> store" where
  "extract_dbang_decay_length_st frame padding_value h =
     (case lookup (I3MCTree frame) of
        Inl e \<Rightarrow> (Inl e, h)
      | Inr mctree \<Rightarrow>
          (case dbang_try_st mctree padding_value h of
             (Inl e, h') \<Rightarrow> (Inr padding_value, h')
           | (Inr v, h') \<Rightarrow> (Inr v, h')))"

text \<open>
  \<^verbatim>\<open>__call__\<close> on the store. The attributes of the primary that the first update
  writes are read before the decay length is computed, its track length after.
\<close>

definition call_st ::
  "point_test \<Rightarrow> extractor \<Rightarrow> addr frame \<Rightarrow> pyval \<Rightarrow> store \<Rightarrow> (error + field_map) \<times> store" where
  "call_st contains_point self frame padding_value h =
     (let is_mc = frame_is_montecarlo frame;
          is_noise = frame_is_noise frame
      in
      case find_data_type is_mc (i3_file self) of Inl e \<Rightarrow> (Inl e, h) | Inr sim_type \<Rightarrow>
      case lookup (I3EventHeader frame) of Inl e \<Rightarrow> (Inl e, h) | Inr hdr \<Rightarrow>
        (let out = initial_output hdr sim_type padding_value in
         if sub_event_stream hdr \<noteq> ''InIceSplit'' then (Inr out, h)
         else
           (let out = oscnext_flags frame (filter_flags frame out) in
            if is_mc \<and> \<not> is_noise then
              (case get_primary_st frame sim_type (VInt (- 1)) h of
                 (Inl e, h1) \<Rightarrow> (Inl e, h1)
               | (Inr (primary, interaction_type, elasticity), h1) \<Rightarrow>
              case track_energy_st frame h1 of
                 (Inl e, h2) \<Rightarrow> (Inl e, h2)
               | (Inr (energy_track, inelasticity), h2) \<Rightarrow>
              case primary of
                 None \<Rightarrow> (Inl AttributeError, h2)
               | Some a \<Rightarrow>
              case extract_dbang_decay_length_st frame padding_value h2 of
                 (Inl e, h3) \<Rightarrow> (Inl e, h3)
               | (Inr decay_length, h3) \<Rightarrow>
                (let out = primary_update out (objs h2 a) interaction_type elasticity
                             decay_length energy_track inelasticity
                 in
                 case abs_pid_is_13 out of
                   Inl e \<Rightarrow> (Inl e, h3)
                 | Inr False \<Rightarrow> (Inr out, h3)
                 | Inr True \<Rightarrow>
                     (let out = out(''track_length'' \<mapsto> VFloat (length_p (objs h3 a))) in
                      case muon_stopped contains_point out (borders self) 100 100 of
                        Inl e \<Rightarrow> (Inl e, h3)
                      | Inr muon_final \<Rightarrow> (Inr (muon_update out muon_final), h3))))
            else (Inr out, h))))"

text \<open>
  What a record on the store stands for: the record of the particles that its addresses
  hold. A record is owned by the caller when its addresses are in use, that is, below the
  next free address.
\<close>

definition view_tree :: "store \<Rightarrow> addr mctree \<Rightarrow> particle mctree" where
  "view_tree h t =
     \<lparr>entries = map (objs h) (entries t), primaries = map (objs h) (primaries t),
      children = map (\<lambda>(i, ds). (i, map (objs h) ds)) (children t)\<rparr>"

definition view :: "store \<Rightarrow> addr frame \<Rightarrow> particle frame" where
  "view h f =
     \<lparr>mc_flag = mc_flag f, noise_flag = noise_flag f, I3EventHeader = I3EventHeader f,
      FilterMask = FilterMask f, bools = bools f,
      MCInIcePrimary = map_option (objs h) (MCInIcePrimary f),
      I3MCTree = map_option (view_tree h) (I3MCTree f),
      I3MCWeightDict = I3MCWeightDict f, I3GENIEResultDict = I3GENIEResultDict f\<rparr>"

definition tree_addrs :: "addr mctree \<Rightarrow> addr set" where
  "tree_addrs t = set (entries t) \<union> set (primaries t) \<union> (\<Union>c \<in> set (children t). set (snd c))"

definition frame_addrs :: "addr frame \<Rightarrow> addr set" where
  "frame_addrs f =
     set_option (MCInIcePrimary f) \<union> (case I3MCTree f of None \<Rightarrow> {} | Some t \<Rightarrow> tree_addrs t)"

definition owned :: "addr frame \<Rightarrow> store \<Rightarrow> bool" where
  "owned f h = (\<forall>a \<in> frame_addrs f. a < fresh h)"

text \<open>
  A store extends another when the objects of the other are in it, unchanged: only objects
  at addresses that were free have been made or written.
\<close>

definition store_extends :: "store \<Rightarrow> store \<Rightarrow> bool" where
  "store_extends h h' = (fresh h \<le> fresh h' \<and> (\<forall>a < fresh h. objs h' a = objs h a))"

text \<open>
  The double cascade on a store: the five particles of the tree at the addresses 0 to 4,
  and the record whose tree holds these addresses.
\<close>

definition dbang_store :: store where
  "dbang_store =
     \<lparr>objs = (\<lambda>a. case drop a (entries (dbang_tree (OtherType 9900016))) of
                     p # _ \<Rightarrow> p
                   | [] \<Rightarrow> example_particle 0 (OtherType 0) 0 (Fin 0) 0),
      fresh = 5\<rparr>"

definition dbang_record :: "addr frame" where
  "dbang_record =
     \<lparr>mc_flag = True, noise_flag = False, I3EventHeader = Some (example_header ''InIceSplit''),
      FilterMask = None, bools = Map.empty, MCInIcePrimary = None,
      I3MCTree = Some \<lparr>entries = [0, 1, 2, 3, 4], primaries = [0],
                        children = [(1, [1, 2]), (3, [3, 4])]\<rparr>,
      I3MCWeightDict = None, I3GENIEResultDict = None\<rparr>"

section \<open>Simulation type\<close>

text \<open>
  C3, as stated, fails in its last part: a path that contains both "corsika" and "muon"
  and also "L2" is classified as dbang, since the rule for "L2" comes later.
\<close>

theorem find_data_type_corsika_muon_counterexample:
  "py_in ''corsika'' ''corsika_muon_L2.i3'' \<and> py_in ''muon'' ''corsika_muon_L2.i3''
   \<and> find_data_type True (Some ''corsika_muon_L2.i3'') = Inr ''dbang''"
  by (simp add: find_data_type_def lower_def lower_char_def)

text \<open>
  C3, amended: for every Monte-Carlo flag and path the classifier returns one of the seven
  tags, namely the tag of the last matching rule in the order muon, corsika, genie or
  case-insensitive nu, noise, L2, or else its start tag ("data" when not Monte Carlo,
  "NuGen" when Monte Carlo); a path that contains both "corsika" and "muon" and matches
  none of the three later rules yields "corsika".
\<close>

theorem find_data_type_last_match_wins:
  "find_data_type mc (Some path) =
     Inr (last_match_wins (if mc then ''NuGen'' else ''data'') override_rules path)
   \<and> last_match_wins (if mc then ''NuGen'' else ''data'') override_rules path \<in> set sim_types
   \<and> (py_in ''corsika'' path \<and> py_in ''muon'' path
        \<and> \<not> (py_in ''genie'' path \<or> py_in ''nu'' (lower path))
        \<and> \<not> py_in ''noise'' path \<and> \<not> py_in ''L2'' path
       \<longrightarrow> find_data_type mc (Some path) = Inr ''corsika'')"
  by (simp add: find_data_type_def last_match_wins_def override_rules_def sim_types_def)

theorem find_data_type_last_match_wins_witness:
  "py_in ''corsika'' ''/sim/corsika_muon.i3'' \<and> py_in ''muon'' ''/sim/corsika_muon.i3''
   \<and> \<not> (py_in ''genie'' ''/sim/corsika_muon.i3'' \<or> py_in ''nu'' (lower ''/sim/corsika_muon.i3''))
   \<and> \<not> py_in ''noise'' ''/sim/corsika_muon.i3'' \<and> \<not> py_in ''L2'' ''/sim/corsika_muon.i3''
   \<and> find_data_type True (Some ''/sim/corsika_muon.i3'') = Inr ''corsika''
   \<and> last_match_wins ''NuGen'' override_rules ''/sim/corsika_muon.i3'' = ''corsika''"
proof -
  have matches:
    "py_in ''corsika'' ''/sim/corsika_muon.i3'' \<and> py_in ''muon'' ''/sim/corsika_muon.i3''
     \<and> \<not> (py_in ''genie'' ''/sim/corsika_muon.i3'' \<or> py_in ''nu'' (lower ''/sim/corsika_muon.i3''))
     \<and> \<not> py_in ''noise'' ''/sim/corsika_muon.i3'' \<and> \<not> py_in ''L2'' ''/sim/corsika_muon.i3''"
    by (simp add: lower_def lower_char_def)
  from find_data_type_last_match_wins [of True "''/sim/corsika_muon.i3''"] matches
  show ?thesis by auto
qed

section \<open>The shape of a call\<close>

lemma abs_pid_is_13_primary_update:
  "abs_pid_is_13 (primary_update out p it el dl et inel) = Inr (\<bar>pdg_encoding p\<bar> = 13)"
  by (simp add: abs_pid_is_13_def primary_update_def getitem_def)

text \<open>The four ways in which \<open>call\<close> returns a record.\<close>

lemma call_Inr_cases:
  assumes "call cp self frame pad = Inr out"
  obtains
    (other_stream) st hdr where
      "find_data_type (frame_is_montecarlo frame) (i3_file self) = Inr st"
      "I3EventHeader frame = Some hdr" "sub_event_stream hdr \<noteq> ''InIceSplit''"
      "out = initial_output hdr st pad"
  | (no_truth) st hdr where
      "find_data_type (frame_is_montecarlo frame) (i3_file self) = Inr st"
      "I3EventHeader frame = Some hdr" "sub_event_stream hdr = ''InIceSplit''"
      "\<not> (frame_is_montecarlo frame \<and> \<not> frame_is_noise frame)"
      "out = oscnext_flags frame (filter_flags frame (initial_output hdr st pad))"
  | (truth) st hdr p it el et inel dl where
      "find_data_type (frame_is_montecarlo frame) (i3_file self) = Inr st"
      "I3EventHeader frame = Some hdr" "sub_event_stream hdr = ''InIceSplit''"
      "frame_is_montecarlo frame" "\<not> frame_is_noise frame"
      "get_primary_particle_interaction_type_and_elasticity frame st (VInt (- 1)) = Inr (Some p, it, el)"
      "get_primary_track_energy_and_inelasticity frame = Inr (et, inel)"
      "extract_dbang_decay_length frame pad = Inr dl"
      "\<bar>pdg_encoding p\<bar> \<noteq> 13"
      "out = primary_update (oscnext_flags frame (filter_flags frame (initial_output hdr st pad)))
               p it el dl et inel"
  | (muon) st hdr p it el et inel dl mf where
      "find_data_type (frame_is_montecarlo frame) (i3_file self) = Inr st"
      "I3EventHeader frame = Some hdr" "sub_event_stream hdr = ''InIceSplit''"
      "frame_is_montecarlo frame" "\<not> frame_is_noise frame"
      "get_primary_particle_interaction_type_and_elasticity frame st (VInt (- 1)) = Inr (Some p, it, el)"
      "get_primary_track_energy_and_inelasticity frame = Inr (et, inel)"
      "extract_dbang_decay_length frame pad = Inr dl"
      "\<bar>pdg_encoding p\<bar> = 13"
      "muon_stopped cp
         ((primary_update (oscnext_flags frame (filter_flags frame (initial_output hdr st pad)))
             p it el dl et inel)(''track_length'' \<mapsto> VFloat (length_p p)))
         (borders self) 100 100 = Inr mf"
      "out = muon_update
               ((primary_update (oscnext_flags frame (filter_flags frame (initial_output hdr st pad)))
                   p it el dl et inel)(''track_length'' \<mapsto> VFloat (length_p p)))
               mf"
  using assms
  unfolding call_def Let_def lookup_def
  by (auto simp: abs_pid_is_13_primary_update
           split: sum.splits option.splits if_splits prod.splits bool.splits)

section \<open>The record before the stream is looked at\<close>

lemma dom_initial_output: "dom (initial_output hdr st pad) = set schema"
  unfolding initial_output_def schema_def by (simp add: dom_map_of_conv_image_fst)

lemma initial_output_padding:
  "k \<in> set schema \<Longrightarrow> k \<notin> set header_fields \<Longrightarrow> initial_output hdr st pad k = Some pad"
  unfolding initial_output_def schema_def header_fields_def by auto

lemma find_data_type_example:
  "find_data_type mc (i3_file example_extractor) = Inr ''genie''"
  by (simp add: example_extractor_def set_files_def init_def find_data_type_def
        lower_def lower_char_def)

text \<open>
  C2: when the extractor's file is set and the header's sub-event stream is not
  "InIceSplit", the call returns the record it started from: its keys are the 29 fields,
  the six fields event_time, sim_type, RunID, SubrunID, EventID and SubEventID hold the
  header's values and the simulation type, and every other field holds the padding value.
  Nothing else of the frame is read.
\<close>

theorem call_other_stream:
  assumes "find_data_type (frame_is_montecarlo frame) (i3_file self) = Inr st"
    and "I3EventHeader frame = Some hdr"
    and "sub_event_stream hdr \<noteq> ''InIceSplit''"
  shows "\<exists>out. call cp self frame pad = Inr out
           \<and> out = initial_output hdr st pad
           \<and> dom out = set schema
           \<and> (\<forall>k \<in> set schema. k \<notin> set header_fields \<longrightarrow> out k = Some pad)
           \<and> out ''event_time'' = Some (VInt (start_time_utc_daq_time hdr))
           \<and> out ''sim_type'' = Some (VStr st)
           \<and> out ''RunID'' = Some (VInt (run_id hdr))
           \<and> out ''SubrunID'' = Some (VInt (sub_run_id hdr))
           \<and> out ''EventID'' = Some (VInt (event_id hdr))
           \<and> out ''SubEventID'' = Some (VInt (sub_event_id hdr))"
proof -
  have "call cp self frame pad = Inr (initial_output hdr st pad)"
    using assms by (simp add: call_def lookup_def)
  moreover have "initial_output hdr st pad ''event_time'' = Some (VInt (start_time_utc_daq_time hdr))"
    and "initial_output hdr st pad ''sim_type'' = Some (VStr st)"
    and "initial_output hdr st pad ''RunID'' = Some (VInt (run_id hdr))"
    and "initial_output hdr st pad ''SubrunID'' = Some (VInt (sub_run_id hdr))"
    and "initial_output hdr st pad ''EventID'' = Some (VInt (event_id hdr))"
    and "initial_output hdr st pad ''SubEventID'' = Some (VInt (sub_event_id hdr))"
    by (simp_all add: initial_output_def)
  ultimately show ?thesis
    using dom_initial_output initial_output_padding by blast
qed

theorem call_other_stream_witness:
  "find_data_type (frame_is_montecarlo (data_frame ''NullSplit'' None Map.empty))
     (i3_file example_extractor) = Inr ''genie''
   \<and> I3EventHeader (data_frame ''NullSplit'' None Map.empty) = Some (example_header ''NullSplit'')
   \<and> sub_event_stream (example_header ''NullSplit'') \<noteq> ''InIceSplit''
   \<and> (\<exists>out. call example_point_test example_extractor (data_frame ''NullSplit'' None Map.empty)
               (VInt (- 1)) = Inr out
          \<and> out ''energy'' = Some (VInt (- 1))
          \<and> out ''DeepCoreFilter_13'' = Some (VInt (- 1))
          \<and> out ''sim_type'' = Some (VStr ''genie'')
          \<and> out ''RunID'' = Some (VInt 120000))"
proof -
  have a: "find_data_type (frame_is_montecarlo (data_frame ''NullSplit'' None Map.empty))
     (i3_file example_extractor) = Inr ''genie''"
    by (rule find_data_type_example)
  have b: "I3EventHeader (data_frame ''NullSplit'' None Map.empty) = Some (example_header ''NullSplit'')"
    by (simp add: data_frame_def)
  have c: "sub_event_stream (example_header ''NullSplit'') \<noteq> ''InIceSplit''"
    by (simp add: example_header_def)
  from call_other_stream [OF a b c, of example_point_test "VInt (- 1)"]
  obtain out where
    o: "call example_point_test example_extractor (data_frame ''NullSplit'' None Map.empty)
          (VInt (- 1)) = Inr out"
    "out = initial_output (example_header ''NullSplit'') ''genie'' (VInt (- 1))"
    "out ''sim_type'' = Some (VStr ''genie'')"
    "out ''RunID'' = Some (VInt (run_id (example_header ''NullSplit'')))"
    by blast
  have "out ''energy'' = Some (VInt (- 1))" "out ''DeepCoreFilter_13'' = Some (VInt (- 1))"
    using o(2) by (simp_all add: initial_output_def)
  moreover have "out ''RunID'' = Some (VInt 120000)"
    using o(4) by (simp add: example_header_def)
  ultimately show ?thesis using a b c o(1) o(3) by blast
qed

section \<open>A call before the files are set\<close>

text \<open>
  C9, as stated, fails: the source has no MissingContextError. With no file set the call
  fails with the TypeError of the first substring test on the unset path.
\<close>

theorem call_before_set_files_counterexample:
  "call example_point_test (init ''truth'' None) (data_frame ''InIceSplit'' None Map.empty)
     (VInt (- 1)) = Inl TypeError
   \<and> call example_point_test (init ''truth'' None) (data_frame ''InIceSplit'' None Map.empty)
       (VInt (- 1)) \<noteq> Inl MissingContextError"
  by (simp add: init_def call_def find_data_type_def)

text \<open>
  C9, amended: a newly constructed extractor has no file, and invoking extraction on any
  record while no file is set fails with a TypeError; it returns no record.
\<close>

theorem call_before_set_files:
  "i3_file (init nm b) = None
   \<and> (i3_file self = None \<longrightarrow> call cp self frame pad = Inl TypeError)"
  by (simp add: init_def call_def find_data_type_def)

theorem call_before_set_files_witness:
  "i3_file (init ''truth'' None) = None
   \<and> call example_point_test (init ''truth'' None) (data_frame ''NullSplit'' None Map.empty)
       (VInt 0) = Inl TypeError"
  using call_before_set_files [of "''truth''" None "init ''truth'' None"]
  by simp

section \<open>Filter flags\<close>

lemma set_flag_other: "k \<noteq> k' \<Longrightarrow> set_flag m k' out k = out k"
  by (simp add: set_flag_def split: option.splits)

lemma oscnext_flags_DeepCore:
  "oscnext_flags frame out ''DeepCoreFilter_13'' = out ''DeepCoreFilter_13''"
  by (simp add: oscnext_flags_def set_flag_other)

lemma primary_update_DeepCore:
  "primary_update out p it el dl et inel ''DeepCoreFilter_13'' = out ''DeepCoreFilter_13''"
  by (simp add: primary_update_def)

lemma muon_update_DeepCore:
  "muon_update out mf ''DeepCoreFilter_13'' = out ''DeepCoreFilter_13''"
  by (simp add: muon_update_def split: prod.splits)

lemma initial_output_DeepCore:
  "initial_output hdr st pad ''DeepCoreFilter_13'' = Some pad"
  by (simp add: initial_output_def)

lemma filter_flags_DeepCore:
  "filter_flags frame out ''DeepCoreFilter_13'' =
     (case (case FilterMask frame of Some fm \<Rightarrow> fm ''DeepCoreFilter_13''
            | None \<Rightarrow> bools frame ''DeepCoreFilter_13'') of
        None \<Rightarrow> out ''DeepCoreFilter_13''
      | Some b \<Rightarrow> Some (VInt (of_bool b)))"
  by (simp add: filter_flags_def set_flag_other split: option.splits)
     (simp add: set_flag_def)

lemma call_DeepCore:
  assumes "call cp self frame pad = Inr out"
  shows "\<exists>hdr st. I3EventHeader frame = Some hdr \<and>
           out ''DeepCoreFilter_13'' =
             (if sub_event_stream hdr = ''InIceSplit''
              then filter_flags frame (initial_output hdr st pad) ''DeepCoreFilter_13''
              else Some pad)"
  using assms
  by (cases rule: call_Inr_cases)
     (auto simp: oscnext_flags_DeepCore primary_update_DeepCore muon_update_DeepCore
                 initial_output_DeepCore)

lemma get_primary_bools:
  "get_primary_particle_interaction_type_and_elasticity (frame\<lparr>bools := b\<rparr>) st pv
     = get_primary_particle_interaction_type_and_elasticity frame st pv"
  by (simp add: get_primary_particle_interaction_type_and_elasticity_def
           cong: sum.case_cong option.case_cong if_cong)

lemma track_energy_bools:
  "get_primary_track_energy_and_inelasticity (frame\<lparr>bools := b\<rparr>)
     = get_primary_track_energy_and_inelasticity frame"
  by (simp add: get_primary_track_energy_and_inelasticity_def)

lemma decay_length_bools:
  "extract_dbang_decay_length (frame\<lparr>bools := b\<rparr>) pv = extract_dbang_decay_length frame pv"
  by (simp add: extract_dbang_decay_length_def)

lemma flags_legacy_independent:
  "FilterMask frame = Some fm \<Longrightarrow>
   oscnext_flags (frame\<lparr>bools := (bools frame)(''DeepCoreFilter_13'' := legacy)\<rparr>)
     (filter_flags (frame\<lparr>bools := (bools frame)(''DeepCoreFilter_13'' := legacy)\<rparr>) out)
   = oscnext_flags frame (filter_flags frame out)"
  by (simp add: oscnext_flags_def filter_flags_def set_flag_def)

text \<open>
  C10: when the record has a FilterMask, the call does not depend on the top-level
  DeepCoreFilter_13 entry of the record (whatever it is set to, or whether it is there, the
  result is the same), and if the FilterMask has no DeepCoreFilter_13 entry the field of
  that name in the output is the padding value. The top-level entry is what fills the field
  when the record has no FilterMask (for an event of the InIceSplit stream).
\<close>

theorem filter_mask_shadows_legacy_flag:
  "(FilterMask frame = Some fm \<longrightarrow>
      call cp self (frame\<lparr>bools := (bools frame)(''DeepCoreFilter_13'' := legacy)\<rparr>) pad
        = call cp self frame pad)
   \<and> (FilterMask frame = Some fm \<and> fm ''DeepCoreFilter_13'' = None
        \<and> call cp self frame pad = Inr out
       \<longrightarrow> out ''DeepCoreFilter_13'' = Some pad)
   \<and> (FilterMask frame = None \<and> bools frame ''DeepCoreFilter_13'' = Some b
        \<and> I3EventHeader frame = Some hdr \<and> sub_event_stream hdr = ''InIceSplit''
        \<and> call cp self frame pad = Inr out
       \<longrightarrow> out ''DeepCoreFilter_13'' = Some (VInt (of_bool b)))"
proof (intro conjI impI)
  assume "FilterMask frame = Some fm"
  then show "call cp self (frame\<lparr>bools := (bools frame)(''DeepCoreFilter_13'' := legacy)\<rparr>) pad
        = call cp self frame pad"
    by (simp add: call_def frame_is_montecarlo_def frame_is_noise_def flags_legacy_independent
             get_primary_bools track_energy_bools decay_length_bools
             cong: sum.case_cong option.case_cong if_cong)
next
  assume a: "FilterMask frame = Some fm \<and> fm ''DeepCoreFilter_13'' = None
        \<and> call cp self frame pad = Inr out"
  with call_DeepCore [of cp self frame pad out]
  show "out ''DeepCoreFilter_13'' = Some pad"
    by (auto simp: filter_flags_DeepCore initial_output_DeepCore split: if_splits)
next
  assume a: "FilterMask frame = None \<and> bools frame ''DeepCoreFilter_13'' = Some b
        \<and> I3EventHeader frame = Some hdr \<and> sub_event_stream hdr = ''InIceSplit''
        \<and> call cp self frame pad = Inr out"
  with call_DeepCore [of cp self frame pad out]
  show "out ''DeepCoreFilter_13'' = Some (VInt (of_bool b))"
    by (auto simp: filter_flags_DeepCore)
qed

lemma call_data_frame:
  "call cp example_extractor (data_frame ''InIceSplit'' fm flags) pad =
     Inr (oscnext_flags (data_frame ''InIceSplit'' fm flags)
            (filter_flags (data_frame ''InIceSplit'' fm flags)
               (initial_output (example_header ''InIceSplit'') ''genie'' pad)))"
proof -
  have "frame_is_montecarlo (data_frame ''InIceSplit'' fm flags) = False"
    by (simp add: frame_is_montecarlo_def data_frame_def)
  moreover have "I3EventHeader (data_frame ''InIceSplit'' fm flags) = Some (example_header ''InIceSplit'')"
    by (simp add: data_frame_def)
  moreover have "sub_event_stream (example_header ''InIceSplit'') = ''InIceSplit''"
    by (simp add: example_header_def)
  ultimately show ?thesis
    by (simp add: call_def find_data_type_example lookup_def)
qed

theorem filter_mask_shadows_legacy_flag_witness:
  "FilterMask (data_frame ''InIceSplit'' (Some Map.empty) [''DeepCoreFilter_13'' \<mapsto> True])
     = Some Map.empty
   \<and> bools (data_frame ''InIceSplit'' (Some Map.empty) [''DeepCoreFilter_13'' \<mapsto> True])
        ''DeepCoreFilter_13'' = Some True
   \<and> (\<exists>out. call example_point_test example_extractor
               (data_frame ''InIceSplit'' (Some Map.empty) [''DeepCoreFilter_13'' \<mapsto> True])
               (VInt (- 1)) = Inr out
          \<and> out ''DeepCoreFilter_13'' = Some (VInt (- 1)))
   \<and> FilterMask (data_frame ''InIceSplit'' None [''DeepCoreFilter_13'' \<mapsto> True]) = None
   \<and> (\<exists>out. call example_point_test example_extractor
               (data_frame ''InIceSplit'' None [''DeepCoreFilter_13'' \<mapsto> True])
               (VInt (- 1)) = Inr out
          \<and> out ''DeepCoreFilter_13'' = Some (VInt 1))"
proof -
  let ?f = "data_frame ''InIceSplit'' (Some Map.empty) [''DeepCoreFilter_13'' \<mapsto> True]"
  let ?g = "data_frame ''InIceSplit'' None [''DeepCoreFilter_13'' \<mapsto> True]"
  obtain out where o: "call example_point_test example_extractor ?f (VInt (- 1)) = Inr out"
    by (simp add: call_data_frame)
  obtain out' where o': "call example_point_test example_extractor ?g (VInt (- 1)) = Inr out'"
    by (simp add: call_data_frame)
  have f: "FilterMask ?f = Some Map.empty" "bools ?f ''DeepCoreFilter_13'' = Some True"
    by (simp_all add: data_frame_def)
  have g: "FilterMask ?g = None" "bools ?g ''DeepCoreFilter_13'' = Some True"
    "I3EventHeader ?g = Some (example_header ''InIceSplit'')"
    "sub_event_stream (example_header ''InIceSplit'') = ''InIceSplit''"
    by (simp_all add: data_frame_def example_header_def)
  from filter_mask_shadows_legacy_flag
         [of ?f Map.empty example_point_test example_extractor None "VInt (- 1)" out] f o
  have 1: "out ''DeepCoreFilter_13'' = Some (VInt (- 1))" by simp
  from filter_mask_shadows_legacy_flag
         [of ?g Map.empty example_point_test example_extractor None "VInt (- 1)" out' True
             "example_header ''InIceSplit''"] g o'
  have 2: "out' ''DeepCoreFilter_13'' = Some (VInt 1)" by simp
  show ?thesis using f g(1) o o' 1 2 by blast
qed

section \<open>The primary particle\<close>

lemma fne_self: "fne a a \<longleftrightarrow> a = NaN"
  by (cases a) (simp_all add: fne_def)

text \<open>
  C6, as stated, fails: the test for a not-a-number energy follows the choice of the
  particle, so it also applies to the explicitly named primary. A record whose MCInIcePrimary
  has a not-a-number energy resolves to the second entry of the tree, not to that particle.
\<close>

theorem primary_resolution_counterexample:
  "MCInIcePrimary (mc_frame ''InIceSplit'' (Some nan_muon) (Some muon_tree)) = Some nan_muon
   \<and> get_primary_particle_interaction_type_and_elasticity
        (mc_frame ''InIceSplit'' (Some nan_muon) (Some muon_tree)) ''genie'' (VInt (- 1))
       = Inr (Some good_muon, VInt (- 1), VInt (- 1))
   \<and> good_muon \<noteq> nan_muon"
  by (simp add: get_primary_particle_interaction_type_and_elasticity_def mc_frame_def
        nan_muon_def good_muon_def muon_tree_def example_particle_def fne_self lookup_def
        tree_item_def)

text \<open>
  C6, amended: for a simulation type other than noise, the explicitly named primary is taken
  if the record has one, otherwise the first entry of the particle tree; if the energy of
  the particle so taken is not-a-number, whichever of the two it is, the second entry of the
  tree is used instead; otherwise the particle taken is the primary.
\<close>

theorem primary_resolution:
  assumes "sim_type \<noteq> ''noise''"
  shows
    "(MCInIcePrimary frame = Some p \<and> energy p \<noteq> NaN \<longrightarrow>
        (\<exists>it el. get_primary_particle_interaction_type_and_elasticity frame sim_type pv
                   = Inr (Some p, it, el)))
     \<and> (MCInIcePrimary frame = None \<and> I3MCTree frame = Some t \<and> tree_item t 0 = Inr p
          \<and> energy p \<noteq> NaN \<longrightarrow>
        (\<exists>it el. get_primary_particle_interaction_type_and_elasticity frame sim_type pv
                   = Inr (Some p, it, el)))
     \<and> ((MCInIcePrimary frame = Some p \<or> MCInIcePrimary frame = None \<and> tree_item t 0 = Inr p)
          \<and> I3MCTree frame = Some t \<and> energy p = NaN \<and> tree_item t 1 = Inr q \<longrightarrow>
        (\<exists>it el. get_primary_particle_interaction_type_and_elasticity frame sim_type pv
                   = Inr (Some q, it, el)))"
  using assms
  by (auto simp: get_primary_particle_interaction_type_and_elasticity_def fne_self lookup_def Let_def)

theorem primary_resolution_witness:
  "''genie'' \<noteq> ''noise''
   \<and> MCInIcePrimary (mc_frame ''InIceSplit'' (Some nan_muon) (Some muon_tree)) = Some nan_muon
   \<and> I3MCTree (mc_frame ''InIceSplit'' (Some nan_muon) (Some muon_tree)) = Some muon_tree
   \<and> energy nan_muon = NaN \<and> tree_item muon_tree 1 = Inr good_muon
   \<and> (\<exists>it el. get_primary_particle_interaction_type_and_elasticity
                 (mc_frame ''InIceSplit'' (Some nan_muon) (Some muon_tree)) ''genie'' (VInt (- 1))
               = Inr (Some good_muon, it, el))
   \<and> MCInIcePrimary (mc_frame ''InIceSplit'' (Some good_muon) None) = Some good_muon
   \<and> energy good_muon \<noteq> NaN
   \<and> (\<exists>it el. get_primary_particle_interaction_type_and_elasticity
                 (mc_frame ''InIceSplit'' (Some good_muon) None) ''genie'' (VInt (- 1))
               = Inr (Some good_muon, it, el))
   \<and> MCInIcePrimary (mc_frame ''InIceSplit'' None (Some muon_tree)) = None
   \<and> tree_item muon_tree 0 = Inr nan_muon
   \<and> (\<exists>it el. get_primary_particle_interaction_type_and_elasticity
                 (mc_frame ''InIceSplit'' None (Some muon_tree)) ''genie'' (VInt (- 1))
               = Inr (Some good_muon, it, el))"
proof -
  have n: "''genie'' \<noteq> ''noise''" by simp
  have facts:
    "MCInIcePrimary (mc_frame ''InIceSplit'' (Some nan_muon) (Some muon_tree)) = Some nan_muon"
    "I3MCTree (mc_frame ''InIceSplit'' (Some nan_muon) (Some muon_tree)) = Some muon_tree"
    "energy nan_muon = NaN" "tree_item muon_tree 1 = Inr good_muon"
    "MCInIcePrimary (mc_frame ''InIceSplit'' (Some good_muon) None) = Some good_muon"
    "energy good_muon \<noteq> NaN"
    "MCInIcePrimary (mc_frame ''InIceSplit'' None (Some muon_tree)) = None"
    "I3MCTree (mc_frame ''InIceSplit'' None (Some muon_tree)) = Some muon_tree"
    "tree_item muon_tree 0 = Inr nan_muon"
    by (simp_all add: mc_frame_def nan_muon_def good_muon_def muon_tree_def example_particle_def
          tree_item_def)
  from primary_resolution [OF n, where frame = "mc_frame ''InIceSplit'' (Some nan_muon) (Some muon_tree)"
      and p = nan_muon and t = muon_tree and q = good_muon and pv = "VInt (- 1)"] facts
  have 1: "\<exists>it el. get_primary_particle_interaction_type_and_elasticity
                 (mc_frame ''InIceSplit'' (Some nan_muon) (Some muon_tree)) ''genie'' (VInt (- 1))
               = Inr (Some good_muon, it, el)" by blast
  from primary_resolution [OF n, where frame = "mc_frame ''InIceSplit'' (Some good_muon) None"
      and p = good_muon and t = muon_tree and q = good_muon and pv = "VInt (- 1)"] facts
  have 2: "\<exists>it el. get_primary_particle_interaction_type_and_elasticity
                 (mc_frame ''InIceSplit'' (Some good_muon) None) ''genie'' (VInt (- 1))
               = Inr (Some good_muon, it, el)" by blast
  from primary_resolution [OF n, where frame = "mc_frame ''InIceSplit'' None (Some muon_tree)"
      and p = nan_muon and t = muon_tree and q = good_muon and pv = "VInt (- 1)"] facts
  have 3: "\<exists>it el. get_primary_particle_interaction_type_and_elasticity
                 (mc_frame ''InIceSplit'' None (Some muon_tree)) ''genie'' (VInt (- 1))
               = Inr (Some good_muon, it, el)" by blast
  show ?thesis using n facts 1 2 3 by blast
qed

section \<open>Decay length\<close>

lemma pos_eq_energy_update: "pos_eq (c\<lparr>energy := e\<rparr>) d = pos_eq c d"
  by (simp add: pos_eq_def)

lemma distance_energy_update:
  "I3Calculator_distance a (c\<lparr>energy := e\<rparr>) = I3Calculator_distance a c"
  by (simp add: I3Calculator_distance_def)

lemma merge_hnl_daughters_later:
  "merge_hnl_daughters ds (Suc n) (Some c) =
     (if \<forall>d \<in> set ds. pos_eq c d
      then Inr (Some (c\<lparr>energy := foldl fadd (energy c) (map energy ds)\<rparr>))
      else Inl AssertionError)"
proof (induction ds arbitrary: n c)
  case Nil
  then show ?case by simp
next
  case (Cons d ds)
  show ?case
    by (simp add: Cons.IH pos_eq_energy_update)
qed

lemma merge_hnl_daughters_first:
  "merge_hnl_daughters (c # cs) 0 None =
     (if \<forall>d \<in> set cs. pos_eq c d
      then Inr (Some (c\<lparr>energy := foldl fadd (energy c) (map energy cs)\<rparr>))
      else Inl AssertionError)"
  by (simp add: merge_hnl_daughters_later)

lemma py_truediv_unit: "py_truediv a I3Units_m = Inr a"
  by (cases a) (simp_all add: I3Units_m_def)

lemma dbang_try_double_cascade:
  "(case dbang_try t pad of Inl e \<Rightarrow> pad | Inr v \<Rightarrow> v) =
     (case double_cascade t of
        None \<Rightarrow> pad
      | Some (c0, c1) \<Rightarrow> VFloat (I3Calculator_distance c0 c1))"
proof (cases "primaries t")
  case Nil
  then show ?thesis by (simp add: dbang_try_def find_cascades_def merge_and_measure_def double_cascade_def)
next
  case (Cons p_true rest)
  show ?thesis
  proof (cases "\<exists>d0 d1. get_daughters t p_true = [d0, d1]")
    case False
    then have "length (get_daughters t p_true) \<noteq> 2"
      by (metis (no_types, lifting) One_nat_def Suc_1 length_0_conv length_Suc_conv)
    moreover from False have "(case get_daughters t p_true of [d0, d1] \<Rightarrow> x d0 d1 | _ \<Rightarrow> None) = None" for x :: "particle \<Rightarrow> particle \<Rightarrow> (particle \<times> particle) option"
      by (auto split: list.splits)
    ultimately show ?thesis using Cons
      by (simp add: dbang_try_def find_cascades_def merge_and_measure_def double_cascade_def)
  next
    case True
    then obtain d0 d1 where ds: "get_daughters t p_true = [d0, d1]" by blast
    show ?thesis
    proof (cases "get_daughters t (if ptype d0 = Hadrons then d1 else d0)")
      case Nil
      then show ?thesis using Cons ds
        by (auto simp: dbang_try_def find_cascades_def merge_and_measure_def double_cascade_def Let_def split: sum.splits)
    next
      case (Cons c cs)
      then show ?thesis using \<open>primaries t = p_true # rest\<close> ds
        by (auto simp: dbang_try_def find_cascades_def merge_and_measure_def double_cascade_def Let_def merge_hnl_daughters_later
              py_truediv_unit distance_energy_update split: list.splits sum.splits)
    qed
  qed
qed


text \<open>
  C5, as stated, fails in two places. The tree is read from the record before the try
  block, so on a record without I3MCTree the KeyError propagates. And when both daughters
  of the primary are of type Hadrons (so that one is of type Hadrons and the other has
  daughters of its own), the candidate is never assigned and the result is the padding value.
\<close>

theorem decay_length_counterexample:
  "extract_dbang_decay_length (data_frame ''InIceSplit'' None Map.empty) (VInt (- 1))
     = Inl KeyError
   \<and> extract_dbang_decay_length (mc_frame ''InIceSplit'' None (Some (dbang_tree Hadrons)))
       (VInt (- 1)) = Inr (VInt (- 1))"
  by (simp add: extract_dbang_decay_length_def lookup_def data_frame_def mc_frame_def
        dbang_try_def find_cascades_def merge_and_measure_def dbang_tree_def get_daughters_def daughters_of_def example_particle_def
        Let_def)

text \<open>
  C5, amended: on a record that has the particle tree, the decay-length computation never
  raises; it returns the distance between the hadronic daughter and the merged cascade
  exactly when the primary has exactly two daughters, exactly one of them of type Hadrons,
  and the other has at least one daughter of its own, all at the position of the first (so
  that the assertions of the merge hold); on every other shape of the tree it returns the
  padding value.
\<close>

theorem decay_length_double_cascade:
  assumes "I3MCTree frame = Some t"
  shows "extract_dbang_decay_length frame pad =
           Inr (case double_cascade t of
                  None \<Rightarrow> pad
                | Some (c0, c1) \<Rightarrow> VFloat (I3Calculator_distance c0 c1))"
  using assms
  by (simp add: extract_dbang_decay_length_def lookup_def dbang_try_double_cascade)

lemma double_cascade_example:
  "double_cascade (dbang_tree (OtherType 9900016)) =
     Some (example_particle 2 Hadrons (- 2000001006) (Fin 40) 0,
           example_particle 4 (OtherType 11) 11 (Fin 5) 1)"
  by (simp add: double_cascade_def dbang_tree_def get_daughters_def daughters_of_def Let_def
        example_particle_def pos_eq_def)

lemma double_cascade_one_daughter:
  "double_cascade \<lparr>entries = [good_muon, nan_muon], primaries = [good_muon],
                    children = [(2, [nan_muon])]\<rparr> = None"
  by (simp add: double_cascade_def get_daughters_def daughters_of_def good_muon_def
        example_particle_def)

theorem decay_length_double_cascade_witness:
  "I3MCTree (mc_frame ''InIceSplit'' None (Some (dbang_tree (OtherType 9900016))))
     = Some (dbang_tree (OtherType 9900016))
   \<and> extract_dbang_decay_length
        (mc_frame ''InIceSplit'' None (Some (dbang_tree (OtherType 9900016)))) (VInt (- 1))
       = Inr (VFloat (Fin 1))
   \<and> extract_dbang_decay_length
        (mc_frame ''InIceSplit'' None
           (Some \<lparr>entries = [good_muon, nan_muon], primaries = [good_muon],
                  children = [(2, [nan_muon])]\<rparr>)) (VInt (- 1))
       = Inr (VInt (- 1))"
proof -
  have t: "I3MCTree (mc_frame ''InIceSplit'' None (Some u)) = Some u" for u
    by (simp add: mc_frame_def)
  have d: "I3Calculator_distance (example_particle 2 Hadrons (- 2000001006) (Fin 40) 0)
             (example_particle 4 (OtherType 11) 11 (Fin 5) 1) = Fin 1"
    by (simp add: I3Calculator_distance_def example_particle_def)
  show ?thesis
    using decay_length_double_cascade [OF t, of "dbang_tree (OtherType 9900016)" "VInt (- 1)"]
      decay_length_double_cascade [OF t, of "\<lparr>entries = [good_muon, nan_muon],
         primaries = [good_muon], children = [(2, [nan_muon])]\<rparr>" "VInt (- 1)"]
    by (simp add: t d double_cascade_example double_cascade_one_daughter)
qed

section \<open>Where a muon stops\<close>

lemma project_as_computed:
  "project (ox, oy, oz) len az zen =
     (fadd ox (fmul (Fin (- 1)) (fmul (fmul len (fcos az)) (fsin zen))),
      fadd oy (fmul (Fin (- 1)) (fmul (fmul len (fsin az)) (fsin zen))),
      fadd oz (fmul (Fin (- 1)) (fmul len (fcos zen))))"
  by (cases len; cases az; cases zen) (simp_all add: project_def mult.assoc)

lemma muon_stopped_on_primary:
  "muon_stopped cp ((primary_update out p it el dl et inel)(''track_length'' \<mapsto> VFloat len))
     bs hp vp =
   (case project (pos_x p, pos_y p, pos_z p) len (dir_azimuth p) (dir_zenith p) of
      (ex, ey, ez) \<Rightarrow>
        Inr (ex, ey, ez,
             VInt (if cp (fst bs) (ex, ey) (- hp)
                      \<and> in_vertical_range ez (fst (snd bs)) (snd (snd bs)) vp
                   then 1 else 0)))"
  by (simp add: project_as_computed muon_stopped_def item_float_def getitem_def
        primary_update_def in_vertical_range_def Let_def)



lemma muon_frame_facts:
  "frame_is_montecarlo (mc_frame stream (Some good_muon) (Some muon_tree))"
  "\<not> frame_is_noise (mc_frame stream (Some good_muon) (Some muon_tree))"
  "I3EventHeader (mc_frame stream (Some good_muon) (Some muon_tree)) = Some (example_header stream)"
  "sub_event_stream (example_header stream) = stream"
  "get_primary_particle_interaction_type_and_elasticity
     (mc_frame stream (Some good_muon) (Some muon_tree)) ''genie'' (VInt (- 1))
     = Inr (Some good_muon, VInt (- 1), VInt (- 1))"
  "get_primary_track_energy_and_inelasticity (mc_frame stream (Some good_muon) (Some muon_tree))
     = Inr (VInt 0, VFloat (Fin 1))"
  "extract_dbang_decay_length (mc_frame stream (Some good_muon) (Some muon_tree)) pad = Inr pad"
  "\<bar>pdg_encoding good_muon\<bar> = 13"
  "length_p good_muon = Fin 50"
  "project (pos_x good_muon, pos_y good_muon, pos_z good_muon) (length_p good_muon)
     (dir_azimuth good_muon) (dir_zenith good_muon) = (Fin 0, Fin 0, Fin (- 50))"
  by (simp_all add: frame_is_montecarlo_def frame_is_noise_def mc_frame_def example_header_def
        get_primary_particle_interaction_type_and_elasticity_def fne_def
        get_primary_track_energy_and_inelasticity_def lookup_def muon_tree_def
        get_daughters_def daughters_of_def py_sum_def good_muon_def example_particle_def
        extract_dbang_decay_length_def dbang_try_def find_cascades_def merge_and_measure_def project_def)




section \<open>The schema of the truth record\<close>

lemma dom_set_flag: "k \<in> dom out \<Longrightarrow> dom (set_flag m k out) = dom out"
  by (auto simp: set_flag_def split: option.splits)

lemma dom_flags:
  "dom (oscnext_flags frame (filter_flags frame (initial_output hdr st pad))) = set schema"
proof -
  have "dom (filter_flags frame (initial_output hdr st pad)) = set schema"
    by (simp add: filter_flags_def dom_set_flag dom_initial_output schema_def split: option.splits)
  then show ?thesis
    by (simp add: oscnext_flags_def dom_set_flag schema_def)
qed

lemma dom_primary_update:
  "dom out = set schema \<Longrightarrow> dom (primary_update out p it el dl et inel) = set schema"
  by (auto simp: primary_update_def schema_def)

lemma dom_muon_update:
  "dom out = set schema \<Longrightarrow>
   dom (muon_update (out(''track_length'' \<mapsto> v)) mf) = set schema"
  by (cases mf) (auto simp: muon_update_def schema_def)

text \<open>
  Whenever the call returns a record, its keys are exactly the 29 fields of the schema.
\<close>

lemma call_dom_schema:
  assumes "call cp self frame pad = Inr out"
  shows "dom out = set schema"
  using assms
  by (cases rule: call_Inr_cases)
     (simp_all add: dom_initial_output dom_flags dom_primary_update dom_muon_update)


lemma get_primary_returns:
  "(\<exists>p it el. get_primary_particle_interaction_type_and_elasticity frame st pv
                 = Inr (Some p, it, el))
   \<longleftrightarrow> st \<noteq> ''noise'' \<and>
       (case MCInIcePrimary frame of
          Some p \<Rightarrow> energy p = NaN \<longrightarrow> (\<exists>t. I3MCTree frame = Some t \<and> 1 < length (entries t))
        | None \<Rightarrow>
            (\<exists>t. I3MCTree frame = Some t \<and> entries t \<noteq> []
                 \<and> (energy (entries t ! 0) = NaN \<longrightarrow> 1 < length (entries t))))"
  by (auto simp: get_primary_particle_interaction_type_and_elasticity_def fne_self lookup_def
        tree_item_def Let_def split: option.splits sum.splits if_splits)

lemma get_primary_noise:
  "get_primary_particle_interaction_type_and_elasticity frame ''noise'' pv = Inr (prim, it, el)
   \<Longrightarrow> prim = None"
  by (auto simp: get_primary_particle_interaction_type_and_elasticity_def Let_def)

lemma as_float_py_sum: "\<exists>a. as_float (py_sum xs) = Inr a"
  by (simp add: py_sum_def)

lemma py_truediv_returns: "(\<exists>r. py_truediv a b = Inr r) \<longleftrightarrow> \<not> feq b (Fin 0)"
  by (cases a; cases b) auto

lemma track_energy_returns:
  "(\<exists>r. get_primary_track_energy_and_inelasticity frame = Inr r)
   \<longleftrightarrow> (case I3MCTree frame of
          None \<Rightarrow> False
        | Some t \<Rightarrow>
            (case primaries t of
               [] \<Rightarrow> False
             | primary # _ \<Rightarrow> \<not> feq (total_energy primary) (Fin 0)))"
proof (cases "I3MCTree frame")
  case None
  then show ?thesis by (simp add: get_primary_track_energy_and_inelasticity_def lookup_def)
next
  case (Some t)
  show ?thesis
  proof (cases "primaries t")
    case Nil
    then show ?thesis using Some
      by (simp add: get_primary_track_energy_and_inelasticity_def lookup_def)
  next
    case (Cons primary rest)
    obtain a where a: "as_float (py_sum (map total_energy
        (filter (\<lambda>d. shape d = ''StartingTrack'' \<or> shape d = ''Dark'')
           (get_daughters t primary)))) = Inr a"
      using as_float_py_sum by blast
    show ?thesis using Some Cons a py_truediv_returns [of a "total_energy primary"]
      by (auto simp: get_primary_track_energy_and_inelasticity_def lookup_def Let_def
            split: sum.splits)
  qed
qed

lemma decay_length_returns:
  "I3MCTree frame = Some t \<Longrightarrow> \<exists>dl. extract_dbang_decay_length frame pad = Inr dl"
  by (simp add: extract_dbang_decay_length_def lookup_def)

lemma muon_stopped_returns:
  "\<exists>mf. muon_stopped cp ((primary_update out p it el dl et inel)(''track_length'' \<mapsto> VFloat len))
     bs hp vp = Inr mf"
  by (simp add: muon_stopped_on_primary split: prod.splits)


lemma truth_available_iff:
  "truth_available frame st \<longleftrightarrow>
     (\<exists>p it el. get_primary_particle_interaction_type_and_elasticity frame st (VInt (- 1))
                  = Inr (Some p, it, el))
     \<and> (\<exists>r. get_primary_track_energy_and_inelasticity frame = Inr r)"
  unfolding get_primary_returns track_energy_returns truth_available_def
  by (auto split: option.splits list.splits)

lemma call_truth_returns:
  assumes "find_data_type (frame_is_montecarlo frame) (i3_file self) = Inr st"
    and "I3EventHeader frame = Some hdr" and "sub_event_stream hdr = ''InIceSplit''"
    and "frame_is_montecarlo frame" and "\<not> frame_is_noise frame"
    and "truth_available frame st"
  shows "\<exists>out. call cp self frame pad = Inr out"
proof -
  from assms(6) obtain p it el et inel where
    g: "get_primary_particle_interaction_type_and_elasticity frame st (VInt (- 1))
          = Inr (Some p, it, el)"
    and t: "get_primary_track_energy_and_inelasticity frame = Inr (et, inel)"
    unfolding truth_available_iff by (metis surj_pair)
  from assms(6) obtain tr where "I3MCTree frame = Some tr"
    by (auto simp: truth_available_def split: option.splits)
  then obtain dl where d: "extract_dbang_decay_length frame pad = Inr dl"
    using decay_length_returns by blast
  obtain mf where m: "muon_stopped cp
      ((primary_update (oscnext_flags frame (filter_flags frame (initial_output hdr st pad)))
          p it el dl et inel)(''track_length'' \<mapsto> VFloat (length_p p)))
      (borders self) 100 100 = Inr mf"
    using muon_stopped_returns by blast
  show ?thesis
    using assms(1-5) g t d m
    by (simp add: call_def lookup_def abs_pid_is_13_primary_update Let_def split: bool.splits)
qed

text \<open>
  The call returns a record exactly for the well-formed records; on every other record it
  raises.
\<close>

lemma well_formed_iff_returns:
  "well_formed self frame \<longleftrightarrow> (\<exists>out. call cp self frame pad = Inr out)"
proof
  assume wf: "well_formed self frame"
  then obtain st hdr where
    s: "find_data_type (frame_is_montecarlo frame) (i3_file self) = Inr st"
    and h: "I3EventHeader frame = Some hdr"
    by (auto simp: well_formed_def split: sum.splits option.splits)
  show "\<exists>out. call cp self frame pad = Inr out"
  proof (cases "sub_event_stream hdr = ''InIceSplit'' \<and> frame_is_montecarlo frame
                  \<and> \<not> frame_is_noise frame")
    case True
    with wf s h have "truth_available frame st" by (simp add: well_formed_def)
    with True s h show ?thesis using call_truth_returns by blast
  next
    case False
    with s h show ?thesis by (auto simp: call_def lookup_def Let_def)
  qed
next
  assume "\<exists>out. call cp self frame pad = Inr out"
  then obtain out where o: "call cp self frame pad = Inr out" by blast
  then show "well_formed self frame"
  proof (cases rule: call_Inr_cases)
    case (other_stream st hdr)
    then show ?thesis by (simp add: well_formed_def)
  next
    case (no_truth st hdr)
    then show ?thesis by (auto simp: well_formed_def)
  next
    case (truth st hdr p it el et inel dl)
    then have "truth_available frame st" unfolding truth_available_iff by blast
    with truth show ?thesis by (simp add: well_formed_def)
  next
    case (muon st hdr p it el et inel dl mf)
    then have "truth_available frame st" unfolding truth_available_iff by blast
    with muon show ?thesis by (simp add: well_formed_def)
  qed
qed


lemma well_formed_muon_frame:
  "well_formed example_extractor (mc_frame ''InIceSplit'' (Some good_muon) (Some muon_tree))"
  by (simp add: well_formed_def find_data_type_example truth_available_def mc_frame_def
        muon_tree_def good_muon_def example_particle_def)

text \<open>
  C1: the call returns, without raising, exactly for the well-formed records, and what it
  returns has exactly the 29 keys of the schema (the two lemmas above). What fails is the
  padding of unavailable quantities: the helper for the primary is called without the
  padding value of the call, so the interaction type and the elasticity of a Monte-Carlo
  record without their source maps are filled with the helper's default -1. Here the call
  is made with the padding value 0 on such a record: the decay length, whose helper is
  handed the padding value, is 0, the interaction type and the elasticity are -1.
\<close>

theorem call_padding_not_forwarded:
  "I3MCWeightDict (mc_frame ''InIceSplit'' (Some good_muon) (Some muon_tree)) = None
   \<and> I3GENIEResultDict (mc_frame ''InIceSplit'' (Some good_muon) (Some muon_tree)) = None
   \<and> (\<exists>out. call example_point_test example_extractor
               (mc_frame ''InIceSplit'' (Some good_muon) (Some muon_tree)) (VInt 0) = Inr out
          \<and> dom out = set schema
          \<and> out ''interaction_type'' = Some (VInt (- 1))
          \<and> out ''elasticity'' = Some (VInt (- 1))
          \<and> out ''dbang_decay_length'' = Some (VInt 0))"
proof -
  let ?f = "mc_frame ''InIceSplit'' (Some good_muon) (Some muon_tree)"
  obtain out where o: "call example_point_test example_extractor ?f (VInt 0) = Inr out"
    using well_formed_muon_frame well_formed_iff_returns by blast
  have fields: "out ''interaction_type'' = Some (VInt (- 1))
      \<and> out ''elasticity'' = Some (VInt (- 1)) \<and> out ''dbang_decay_length'' = Some (VInt 0)"
    using o
  proof (cases rule: call_Inr_cases)
    case (other_stream st hdr)
    then show ?thesis by (auto simp: muon_frame_facts)
  next
    case (no_truth st hdr)
    then show ?thesis by (auto simp: muon_frame_facts)
  next
    case (truth st hdr p it el et inel dl)
    then show ?thesis by (auto simp: muon_frame_facts find_data_type_example)
  next
    case (muon st hdr p it el et inel dl mf)
    then have "it = VInt (- 1)" "el = VInt (- 1)" "dl = VInt 0"
      by (auto simp: muon_frame_facts find_data_type_example)
    then show ?thesis unfolding muon(11)
      by (cases mf) (simp add: muon_update_def primary_update_def)
  qed
  have "I3MCWeightDict ?f = None" "I3GENIEResultDict ?f = None"
    by (simp_all add: mc_frame_def)
  then show ?thesis
    using o call_dom_schema [OF o] fields by blast
qed

section \<open>The padding value\<close>


















section \<open>The object store\<close>

lemma store_extends_refl: "store_extends h h"
  by (simp add: store_extends_def)

lemma store_extends_trans:
  "store_extends h1 h2 \<Longrightarrow> store_extends h2 h3 \<Longrightarrow> store_extends h1 h3"
  by (auto simp: store_extends_def)

lemma new_object_props:
  assumes "new_object v h = (a, h')"
  shows "a = fresh h" "fresh h' = Suc (fresh h)" "objs h' a = v"
    "\<And>b. b \<noteq> fresh h \<Longrightarrow> objs h' b = objs h b" "store_extends h h'"
  using assms by (auto simp: new_object_def store_extends_def)

lemma new_objects_all:
  assumes "new_objects vs h = (as, h')"
  shows "store_extends h h' \<and> fresh h' = fresh h + length vs \<and> map (objs h') as = vs
         \<and> as = [fresh h ..< fresh h + length vs]"
  using assms
proof (induction vs arbitrary: h as h')
  case Nil
  then show ?case by (simp add: store_extends_refl)
next
  case (Cons v vs)
  obtain a h1 where n1: "new_object v h = (a, h1)" by (cases "new_object v h")
  obtain bs h2 where n2: "new_objects vs h1 = (bs, h2)" by (cases "new_objects vs h1")
  from Cons.prems n1 n2 have eq: "as = a # bs" "h' = h2" by simp_all
  note p1 = new_object_props [OF n1]
  from Cons.IH [OF n2] have
    ih: "store_extends h1 h2" "fresh h2 = fresh h1 + length vs" "map (objs h2) bs = vs"
      "bs = [fresh h1 ..< fresh h1 + length vs]"
    by blast+
  have c1: "store_extends h h2" by (rule store_extends_trans [OF p1(5) ih(1)])
  have c2: "fresh h2 = fresh h + length (v # vs)" using ih(2) p1(2) by simp
  have "objs h2 a = v"
    using ih(1) p1(1,2,3) by (simp add: store_extends_def)
  then have c3: "map (objs h2) (a # bs) = v # vs" using ih(3) by simp
  have "[fresh h ..< fresh h + length (v # vs)]
          = fresh h # [Suc (fresh h) ..< Suc (fresh h) + length vs]"
    by (simp add: upt_conv_Cons del: upt_Suc)
  then have c4: "a # bs = [fresh h ..< fresh h + length (v # vs)]"
    using ih(4) p1(1,2) by simp
  show ?case unfolding eq using c1 c2 c3 c4 by blast
qed

lemma new_objects_props:
  assumes "new_objects vs h = (as, h')"
  shows "store_extends h h'" and "fresh h' = fresh h + length vs"
    and "map (objs h') as = vs" and "as = [fresh h ..< fresh h']"
  using new_objects_all [OF assms] by auto

lemma map_of_map_snd:
  "map_of (map (\<lambda>(i, ds). (i, f ds)) xs) k = map_option f (map_of xs k)"
  by (induction xs) auto

lemma daughters_of_view_tree:
  "daughters_of (view_tree h t) i = map (objs h) (daughters_of t i)"
  by (simp add: daughters_of_def view_tree_def map_of_map_snd split: option.splits)

lemma daughters_of_addrs: "set (daughters_of t i) \<subseteq> tree_addrs t"
proof (cases "map_of (children t) i")
  case None
  then show ?thesis by (simp add: daughters_of_def)
next
  case (Some ds)
  then have "(i, ds) \<in> set (children t)" by (rule map_of_SomeD)
  then show ?thesis using Some by (force simp: daughters_of_def tree_addrs_def)
qed

lemma extends_map_objs:
  "store_extends h0 h \<Longrightarrow> \<forall>a \<in> set as. a < fresh h0 \<Longrightarrow> map (objs h) as = map (objs h0) as"
  by (simp add: store_extends_def)

lemma view_tree_extends:
  assumes "store_extends h0 h" and "\<forall>a \<in> tree_addrs t. a < fresh h0"
  shows "view_tree h t = view_tree h0 t"
proof -
  have "map (objs h) (entries t) = map (objs h0) (entries t)"
    "map (objs h) (primaries t) = map (objs h0) (primaries t)"
    using assms by (auto simp: tree_addrs_def store_extends_def)
  moreover have "\<forall>c \<in> set (children t). \<forall>a \<in> set (snd c). a < fresh h0"
    using assms(2) by (auto simp: tree_addrs_def)
  then have "map (\<lambda>(i, ds). (i, map (objs h) ds)) (children t)
               = map (\<lambda>(i, ds). (i, map (objs h0) ds)) (children t)"
    using assms(1) by (fastforce simp: store_extends_def)
  ultimately show ?thesis by (simp add: view_tree_def)
qed

lemma view_extends:
  assumes "store_extends h0 h" and "owned f h0"
  shows "view h f = view h0 f" and "owned f h"
proof -
  have m: "map_option (objs h) (MCInIcePrimary f) = map_option (objs h0) (MCInIcePrimary f)"
    using assms by (cases "MCInIcePrimary f") (auto simp: owned_def frame_addrs_def store_extends_def)
  have t: "map_option (view_tree h) (I3MCTree f) = map_option (view_tree h0) (I3MCTree f)"
  proof (cases "I3MCTree f")
    case None
    then show ?thesis by simp
  next
    case (Some t)
    with assms(2) have "\<forall>a \<in> tree_addrs t. a < fresh h0"
      by (simp add: owned_def frame_addrs_def)
    with assms(1) Some show ?thesis by (simp add: view_tree_extends)
  qed
  show "view h f = view h0 f" by (simp add: view_def m t)
  show "owned f h" using assms by (auto simp: owned_def store_extends_def)
qed

lemma tree_values:
  assumes "store_extends h0 h" and "\<forall>a \<in> tree_addrs t. a < fresh h0"
  shows "map (objs h) (entries t) = entries (view_tree h0 t)"
    and "map (objs h) (primaries t) = primaries (view_tree h0 t)"
    and "map (objs h) (daughters_of t i) = daughters_of (view_tree h0 t) i"
proof -
  have "view_tree h t = view_tree h0 t" using assms by (rule view_tree_extends)
  then show "map (objs h) (entries t) = entries (view_tree h0 t)"
    and "map (objs h) (primaries t) = primaries (view_tree h0 t)"
    by (auto simp: view_tree_def)
  have "\<forall>a \<in> set (daughters_of t i). a < fresh h0"
    using assms(2) daughters_of_addrs by blast
  with assms(1) show "map (objs h) (daughters_of t i) = daughters_of (view_tree h0 t) i"
    by (simp add: daughters_of_view_tree extends_map_objs)
qed

lemma tree_item_st_refines:
  assumes "store_extends h0 h" and "\<forall>a \<in> tree_addrs t. a < fresh h0"
    and "tree_item_st t i h = (r, h')"
  shows "store_extends h h'"
    and "tree_item (view_tree h0 t) i = map_sum id (objs h') r"
    and "\<forall>a. r = Inr a \<longrightarrow> a < fresh h'"
proof -
  have len: "length (entries (view_tree h0 t)) = length (entries t)"
    by (simp add: view_tree_def)
  show "store_extends h h'" and "tree_item (view_tree h0 t) i = map_sum id (objs h') r"
    and "\<forall>a. r = Inr a \<longrightarrow> a < fresh h'"
  proof (atomize (full), cases "i < length (entries t)")
    case False
    with assms(3) show "store_extends h h' \<and> tree_item (view_tree h0 t) i = map_sum id (objs h') r
        \<and> (\<forall>a. r = Inr a \<longrightarrow> a < fresh h')"
      by (auto simp: tree_item_st_def tree_item_def len store_extends_refl)
  next
    case True
    obtain a h1 where n: "new_object (objs h (entries t ! i)) h = (a, h1)"
      by (cases "new_object (objs h (entries t ! i)) h")
    note p = new_object_props [OF n]
    from True assms(3) n have r: "r = Inr a" "h' = h1" by (simp_all add: tree_item_st_def)
    have "objs h (entries t ! i) = entries (view_tree h0 t) ! i"
      using tree_values(1) [OF assms(1,2)] True by (metis nth_map)
    with True p r show "store_extends h h' \<and> tree_item (view_tree h0 t) i = map_sum id (objs h') r
        \<and> (\<forall>a. r = Inr a \<longrightarrow> a < fresh h')"
      by (simp add: tree_item_def len)
  qed
qed

lemma primaries_st_refines:
  assumes "store_extends h0 h" and "\<forall>a \<in> tree_addrs t. a < fresh h0"
    and "primaries_st t h = (ps, h')"
  shows "store_extends h h'"
    and "primaries (view_tree h0 t) = map (objs h') ps"
    and "ps = [fresh h ..< fresh h']"
proof -
  note n = new_objects_props [OF assms(3) [unfolded primaries_st_def]]
  show "store_extends h h'" by (rule n(1))
  show "primaries (view_tree h0 t) = map (objs h') ps"
    using n(3) tree_values(2) [OF assms(1,2)] by simp
  show "ps = [fresh h ..< fresh h']" by (rule n(4))
qed

lemma get_daughters_st_refines:
  assumes "store_extends h0 h" and "\<forall>a \<in> tree_addrs t. a < fresh h0"
    and "get_daughters_st t a h = (ds, h')"
  shows "store_extends h h'"
    and "get_daughters (view_tree h0 t) (objs h a) = map (objs h') ds"
    and "ds = [fresh h ..< fresh h']"
proof -
  note n = new_objects_props [OF assms(3) [unfolded get_daughters_st_def]]
  show "store_extends h h'" by (rule n(1))
  show "get_daughters (view_tree h0 t) (objs h a) = map (objs h') ds"
    using n(3) tree_values(3) [OF assms(1,2)] by (simp add: get_daughters_def)
  show "ds = [fresh h ..< fresh h']" by (rule n(4))
qed

lemma owned_tree:
  "owned f h0 \<Longrightarrow> I3MCTree f = Some t \<Longrightarrow> \<forall>a \<in> tree_addrs t. a < fresh h0"
  by (simp add: owned_def frame_addrs_def)

lemma view_simps:
  "I3MCTree (view h f) = map_option (view_tree h) (I3MCTree f)"
  "MCInIcePrimary (view h f) = map_option (objs h) (MCInIcePrimary f)"
  "I3MCWeightDict (view h f) = I3MCWeightDict f"
  "I3GENIEResultDict (view h f) = I3GENIEResultDict f"
  "I3EventHeader (view h f) = I3EventHeader f"
  "FilterMask (view h f) = FilterMask f"
  "bools (view h f) = bools f"
  "frame_is_montecarlo (view h f) = frame_is_montecarlo f"
  "frame_is_noise (view h f) = frame_is_noise f"
  by (simp_all add: view_def frame_is_montecarlo_def frame_is_noise_def)

lemma pick_primary_st_refines:
  assumes "owned f h0" and "store_extends h0 h" and "pick_primary_st f h = (r0, h1)"
  shows "store_extends h h1"
    and "(case MCInIcePrimary (view h0 f) of
            Some p \<Rightarrow> Inr p
          | None \<Rightarrow>
              (case lookup (I3MCTree (view h0 f)) of
                 Inl e \<Rightarrow> Inl e
               | Inr t \<Rightarrow> tree_item t 0)) = map_sum id (objs h1) r0"
    and "\<forall>a. r0 = Inr a \<longrightarrow> a < fresh h1"
proof (atomize (full), cases "MCInIcePrimary f")
  case (Some a)
  then have "a < fresh h0" using assms(1) by (simp add: owned_def frame_addrs_def)
  then have "objs h a = objs h0 a" "a < fresh h"
    using assms(2) by (simp_all add: store_extends_def)
  with Some assms(3) show "store_extends h h1
      \<and> (case MCInIcePrimary (view h0 f) of
            Some p \<Rightarrow> Inr p
          | None \<Rightarrow>
              (case lookup (I3MCTree (view h0 f)) of
                 Inl e \<Rightarrow> Inl e
               | Inr t \<Rightarrow> tree_item t 0)) = map_sum id (objs h1) r0
      \<and> (\<forall>a. r0 = Inr a \<longrightarrow> a < fresh h1)"
    by (auto simp: pick_primary_st_def view_simps store_extends_refl)
next
  case None
  show "store_extends h h1
      \<and> (case MCInIcePrimary (view h0 f) of
            Some p \<Rightarrow> Inr p
          | None \<Rightarrow>
              (case lookup (I3MCTree (view h0 f)) of
                 Inl e \<Rightarrow> Inl e
               | Inr t \<Rightarrow> tree_item t 0)) = map_sum id (objs h1) r0
      \<and> (\<forall>a. r0 = Inr a \<longrightarrow> a < fresh h1)"
  proof (cases "I3MCTree f")
    case tn: None
    with None assms(3) show ?thesis
      by (auto simp: pick_primary_st_def view_simps lookup_def store_extends_refl)
  next
    case (Some t)
    with None assms(3) have ti: "tree_item_st t 0 h = (r0, h1)"
      by (simp add: pick_primary_st_def lookup_def)
    note rf = tree_item_st_refines [OF assms(2) owned_tree [OF assms(1) Some] ti]
    with None Some show ?thesis by (simp add: view_simps lookup_def)
  qed
qed

lemma nan_fallback_st_refines:
  assumes "owned f h0" and "store_extends h0 h1" and "a < fresh h1"
    and "nan_fallback_st f a h1 = (r, h')"
  shows "store_extends h1 h'"
    and "(if fne (energy (objs h1 a)) (energy (objs h1 a)) then
                (case lookup (I3MCTree (view h0 f)) of
                   Inl e \<Rightarrow> Inl e
                 | Inr t \<Rightarrow> (case tree_item t 1 of Inl e \<Rightarrow> Inl e | Inr q \<Rightarrow> Inr (Some q)))
              else Inr (Some (objs h1 a))) = map_sum id (map_option (objs h')) r"
    and "\<forall>b. r = Inr (Some b) \<longrightarrow> b < fresh h'"
proof (atomize (full), cases "fne (energy (objs h1 a)) (energy (objs h1 a))")
  case False
  with assms(3,4) show "store_extends h1 h'
    \<and> (if fne (energy (objs h1 a)) (energy (objs h1 a)) then
                (case lookup (I3MCTree (view h0 f)) of
                   Inl e \<Rightarrow> Inl e
                 | Inr t \<Rightarrow> (case tree_item t 1 of Inl e \<Rightarrow> Inl e | Inr q \<Rightarrow> Inr (Some q)))
              else Inr (Some (objs h1 a))) = map_sum id (map_option (objs h')) r
    \<and> (\<forall>b. r = Inr (Some b) \<longrightarrow> b < fresh h')"
    by (auto simp: nan_fallback_st_def store_extends_refl)
next
  case nan: True
  show "store_extends h1 h'
    \<and> (if fne (energy (objs h1 a)) (energy (objs h1 a)) then
                (case lookup (I3MCTree (view h0 f)) of
                   Inl e \<Rightarrow> Inl e
                 | Inr t \<Rightarrow> (case tree_item t 1 of Inl e \<Rightarrow> Inl e | Inr q \<Rightarrow> Inr (Some q)))
              else Inr (Some (objs h1 a))) = map_sum id (map_option (objs h')) r
    \<and> (\<forall>b. r = Inr (Some b) \<longrightarrow> b < fresh h')"
  proof (cases "I3MCTree f")
    case None
    with nan assms(4) show ?thesis
      by (auto simp: nan_fallback_st_def lookup_def view_simps store_extends_refl)
  next
    case (Some t)
    obtain r1 h2 where ti: "tree_item_st t 1 h1 = (r1, h2)" by (cases "tree_item_st t 1 h1")
    note rf = tree_item_st_refines [OF assms(2) owned_tree [OF assms(1) Some] ti]
    from nan Some ti assms(4) have rh: "h' = h2"
      "r = (case r1 of Inl e \<Rightarrow> Inl e | Inr b \<Rightarrow> Inr (Some b))"
      by (auto simp: nan_fallback_st_def lookup_def split: sum.splits)
    show ?thesis using nan Some rf unfolding rh
      by (cases r1) (auto simp: lookup_def view_simps)
  qed
qed

lemma get_primary_st_refines:
  assumes "owned f h0" and "store_extends h0 h" and "get_primary_st f st pv h = (r, h')"
  shows "store_extends h h'"
    and "get_primary_particle_interaction_type_and_elasticity (view h0 f) st pv
             = map_sum id (\<lambda>(prim, it, el). (map_option (objs h') prim, it, el)) r"
    and "\<forall>a it el. r = Inr (Some a, it, el) \<longrightarrow> a < fresh h'"
proof (atomize (full), cases "st = ''noise''")
  case True
  with assms(3) show "store_extends h h'
    \<and> get_primary_particle_interaction_type_and_elasticity (view h0 f) st pv
             = map_sum id (\<lambda>(prim, it, el). (map_option (objs h') prim, it, el)) r
    \<and> (\<forall>a it el. r = Inr (Some a, it, el) \<longrightarrow> a < fresh h')"
    by (auto simp: get_primary_st_def get_primary_particle_interaction_type_and_elasticity_def
          view_simps store_extends_refl Let_def)
next
  case st: False
  obtain r0 h1 where pick: "pick_primary_st f h = (r0, h1)" by (cases "pick_primary_st f h")
  note p0 = pick_primary_st_refines [OF assms(1,2) pick]
  let ?it = "(case I3MCWeightDict f of
                None \<Rightarrow> pv
              | Some d \<Rightarrow> (case d ''InteractionType'' of None \<Rightarrow> pv | Some v \<Rightarrow> VFloat v))"
  let ?el = "(case I3GENIEResultDict f of
                None \<Rightarrow> pv
              | Some d \<Rightarrow> (case d ''y'' of None \<Rightarrow> pv | Some v \<Rightarrow> VFloat v))"
  show "store_extends h h'
    \<and> get_primary_particle_interaction_type_and_elasticity (view h0 f) st pv
             = map_sum id (\<lambda>(prim, it, el). (map_option (objs h') prim, it, el)) r
    \<and> (\<forall>a it el. r = Inr (Some a, it, el) \<longrightarrow> a < fresh h')"
  proof (cases r0)
    case (Inl e)
    with st pick assms(3) have "r = Inl e" "h' = h1"
      by (simp_all add: get_primary_st_def)
    with st p0 Inl show ?thesis
      by (simp add: get_primary_particle_interaction_type_and_elasticity_def)
  next
    case (Inr a)
    with p0 have a: "a < fresh h1" by simp
    obtain r2 h2 where second: "nan_fallback_st f a h1 = (r2, h2)"
      by (cases "nan_fallback_st f a h1")
    have e1: "store_extends h0 h1" by (rule store_extends_trans [OF assms(2) p0(1)])
    note nf = nan_fallback_st_refines [OF assms(1) e1 a second]
    from st pick Inr second assms(3) have rh: "h' = h2"
      "r = (case r2 of Inl e \<Rightarrow> Inl e | Inr prim \<Rightarrow> Inr (prim, ?it, ?el))"
      by (simp_all add: get_primary_st_def Let_def split: sum.splits)
    have ext: "store_extends h h2" by (rule store_extends_trans [OF p0(1) nf(1)])
    have "get_primary_particle_interaction_type_and_elasticity (view h0 f) st pv
        = (case (if fne (energy (objs h1 a)) (energy (objs h1 a)) then
                (case lookup (I3MCTree (view h0 f)) of
                   Inl e \<Rightarrow> Inl e
                 | Inr t \<Rightarrow> (case tree_item t 1 of Inl e \<Rightarrow> Inl e | Inr q \<Rightarrow> Inr (Some q)))
              else Inr (Some (objs h1 a))) of
             Inl e \<Rightarrow> Inl e
           | Inr prim \<Rightarrow> Inr (prim, ?it, ?el))"
      using st Inr
      by (simp add: get_primary_particle_interaction_type_and_elasticity_def p0(2)
            view_simps(3,4) Let_def cong: sum.case_cong if_cong)
    then have pure: "get_primary_particle_interaction_type_and_elasticity (view h0 f) st pv
        = (case map_sum id (map_option (objs h2)) r2 of
             Inl e \<Rightarrow> Inl e
           | Inr prim \<Rightarrow> Inr (prim, ?it, ?el))"
      by (simp only: nf(2))
    show ?thesis unfolding rh pure using ext nf(3)
      by (cases r2) auto
  qed
qed

lemma map_filter_objs:
  "map (\<lambda>d. g (objs h d)) (filter (\<lambda>d. P (objs h d)) ds)
     = map g (filter P (map (objs h) ds))"
  by (induction ds) auto

lemma track_energy_st_refines:
  assumes "owned f h0" and "store_extends h0 h" and "track_energy_st f h = (r, h')"
  shows "store_extends h h'"
    and "get_primary_track_energy_and_inelasticity (view h0 f) = r"
proof (atomize (full), cases "I3MCTree f")
  case None
  with assms(3) show "store_extends h h' \<and> get_primary_track_energy_and_inelasticity (view h0 f) = r"
    by (auto simp: track_energy_st_def get_primary_track_energy_and_inelasticity_def view_simps
          lookup_def store_extends_refl)
next
  case (Some t)
  note ot = owned_tree [OF assms(1) Some]
  obtain ps h1 where ps: "primaries_st t h = (ps, h1)" by (cases "primaries_st t h")
  note pr = primaries_st_refines [OF assms(2) ot ps]
  have e1: "store_extends h0 h1" by (rule store_extends_trans [OF assms(2) pr(1)])
  show "store_extends h h' \<and> get_primary_track_energy_and_inelasticity (view h0 f) = r"
  proof (cases ps)
    case Nil
    with Some ps assms(3) have "r = Inl IndexError" "h' = h1"
      by (simp_all add: track_energy_st_def lookup_def)
    moreover have "primaries (view_tree h0 t) = []" using pr(2) Nil by simp
    ultimately show ?thesis using Some pr(1)
      by (simp add: get_primary_track_energy_and_inelasticity_def view_simps lookup_def)
  next
    case (Cons primary rest)
    obtain ds h2 where ds: "get_daughters_st t primary h1 = (ds, h2)"
      by (cases "get_daughters_st t primary h1")
    note gd = get_daughters_st_refines [OF e1 ot ds]
    have "primary < fresh h1" using pr(3) Cons
      by (metis atLeastLessThan_iff list.set_intros(1) set_upt)
    then have same: "objs h2 primary = objs h1 primary"
      using gd(1) by (simp add: store_extends_def)
    have pview: "primaries (view_tree h0 t) = objs h1 primary # map (objs h1) rest"
      using pr(2) Cons by simp
    let ?P = "objs h1 primary"
    let ?tracks = "filter (\<lambda>d. shape d = ''StartingTrack'' \<or> shape d = ''Dark'')
                     (get_daughters (view_tree h0 t) ?P)"
    have tr: "map (\<lambda>d. total_energy (objs h2 d))
                (filter (\<lambda>d. shape (objs h2 d) = ''StartingTrack''
                            \<or> shape (objs h2 d) = ''Dark'') ds)
              = map total_energy ?tracks"
      using map_filter_objs [of total_energy h2
          "\<lambda>p. shape p = ''StartingTrack'' \<or> shape p = ''Dark''" ds] gd(2)
      by simp
    have pure: "get_primary_track_energy_and_inelasticity (view h0 f)
        = (case as_float (py_sum (map total_energy ?tracks)) of
             Inl e \<Rightarrow> Inl e
           | Inr et \<Rightarrow>
               (case py_truediv et (total_energy ?P) of
                  Inl e \<Rightarrow> Inl e
                | Inr q \<Rightarrow> Inr (py_sum (map total_energy ?tracks), VFloat (fsub (Fin 1) q))))"
      using Some pview
      by (simp add: get_primary_track_energy_and_inelasticity_def view_simps lookup_def Let_def)
    have conc: "track_energy_st f h
        = (case as_float (py_sum (map total_energy ?tracks)) of
             Inl e \<Rightarrow> (Inl e, h2)
           | Inr et \<Rightarrow>
               (case py_truediv et (total_energy ?P) of
                  Inl e \<Rightarrow> (Inl e, h2)
                | Inr q \<Rightarrow> (Inr (py_sum (map total_energy ?tracks), VFloat (fsub (Fin 1) q)), h2)))"
      using Some Cons ps ds
      by (simp add: track_energy_st_def lookup_def Let_def same tr cong: sum.case_cong)
    have "store_extends h h2" by (rule store_extends_trans [OF pr(1) gd(1)])
    moreover have "h' = h2" "get_primary_track_energy_and_inelasticity (view h0 f) = r"
      using assms(3) unfolding conc pure by (auto split: sum.splits)
    ultimately show ?thesis by simp
  qed
qed

lemma assign_daughters_st_refines:
  "assign_daughters (map (objs h) ds) (map_option (objs h) a, map_option (objs h) b)
     = map_prod (map_option (objs h)) (map_option (objs h)) (assign_daughters_st h ds (a, b))"
proof (induction ds arbitrary: a b)
  case Nil
  show ?case by simp
next
  case (Cons d ds)
  show ?case using Cons.IH [of "Some d" b] Cons.IH [of a "Some d"] by simp
qed

lemma assign_daughters_st_addrs:
  "assign_daughters_st h ds (a, b) = (a', b') \<Longrightarrow>
     set_option a' \<subseteq> set ds \<union> set_option a \<and> set_option b' \<subseteq> set ds \<union> set_option b"
  by (induction ds arbitrary: a b) (auto split: if_splits)

lemma merge_hnl_daughters_st_later:
  assumes "c \<notin> set ds" and "merge_hnl_daughters_st ds (Suc n) (Some c) h = (r, h')"
  shows "fresh h' = fresh h \<and> (\<forall>a. a \<noteq> c \<longrightarrow> objs h' a = objs h a)
     \<and> merge_hnl_daughters (map (objs h) ds) (Suc n) (Some (objs h c))
         = map_sum id (map_option (objs h')) r
     \<and> (\<forall>x. r = Inr x \<longrightarrow> x = Some c)"
  using assms
proof (induction ds arbitrary: h n)
  case Nil
  then show ?case by auto
next
  case (Cons d ds)
  from Cons.prems(1) have cd: "c \<noteq> d" and cds: "c \<notin> set ds" by auto
  show ?case
  proof (cases "pos_eq (objs h c) (objs h d)")
    case False
    with Cons.prems(2) show ?thesis by auto
  next
    case True
    define h1 where "h1 = set_energy c (fadd (energy (objs h c)) (energy (objs h d))) h"
    from True Cons.prems(2) have run: "merge_hnl_daughters_st ds (Suc (Suc n)) (Some c) h1 = (r, h')"
      by (simp add: h1_def)
    have h1c: "objs h1 c = (objs h c)\<lparr>energy := fadd (energy (objs h c)) (energy (objs h d))\<rparr>"
      and h1o: "\<And>a. a \<noteq> c \<Longrightarrow> objs h1 a = objs h a" and h1f: "fresh h1 = fresh h"
      by (simp_all add: h1_def set_energy_def)
    from cds h1o have m: "map (objs h1) ds = map (objs h) ds" by (induction ds) auto
    note ih = Cons.IH [OF cds run]
    from ih have "fresh h' = fresh h" using h1f by simp
    moreover from ih h1o have "\<forall>a. a \<noteq> c \<longrightarrow> objs h' a = objs h a" by simp
    moreover from ih have "merge_hnl_daughters (map (objs h) (d # ds)) (Suc n) (Some (objs h c))
         = map_sum id (map_option (objs h')) r"
      using True by (simp add: m h1c id_def)
    moreover from ih have "\<forall>x. r = Inr x \<longrightarrow> x = Some c" by simp
    ultimately show ?thesis by blast
  qed
qed

lemma find_cascades_st_refines:
  assumes "store_extends h0 h2" and "\<forall>a \<in> tree_addrs t. a < fresh h0"
    and "\<forall>a \<in> set pd. a < fresh h2"
    and "find_cascades_st t pd h2 = (r, h3)"
  shows "store_extends h2 h3"
    and "find_cascades (view_tree h0 t) (map (objs h2) pd)
           = map_sum id (\<lambda>(c0, ds). (map_option (objs h3) c0, map (objs h3) ds)) r"
    and "\<forall>c0 ds. r = Inr (c0, ds) \<longrightarrow>
           (\<forall>a \<in> set_option c0. a < fresh h2) \<and> ds = [fresh h2 ..< fresh h3]"
proof (atomize (full), cases "length pd = 2")
  case False
  with assms(4) show "store_extends h2 h3
    \<and> find_cascades (view_tree h0 t) (map (objs h2) pd)
           = map_sum id (\<lambda>(c0, ds). (map_option (objs h3) c0, map (objs h3) ds)) r
    \<and> (\<forall>c0 ds. r = Inr (c0, ds) \<longrightarrow>
           (\<forall>a \<in> set_option c0. a < fresh h2) \<and> ds = [fresh h2 ..< fresh h3])"
    by (auto simp: find_cascades_st_def find_cascades_def store_extends_refl)
next
  case True
  obtain c0 hn where asg: "assign_daughters_st h2 pd (None, None) = (c0, hn)"
    by (cases "assign_daughters_st h2 pd (None, None)")
  from assign_daughters_st_refines [of h2 pd None None] asg
  have pasg: "assign_daughters (map (objs h2) pd) (None, None)
                = (map_option (objs h2) c0, map_option (objs h2) hn)" by simp
  from assign_daughters_st_addrs [OF asg] assms(3)
  have c0lt: "\<forall>a \<in> set_option c0. a < fresh h2" and hnlt: "\<forall>a \<in> set_option hn. a < fresh h2"
    by auto
  show "store_extends h2 h3
    \<and> find_cascades (view_tree h0 t) (map (objs h2) pd)
           = map_sum id (\<lambda>(c0, ds). (map_option (objs h3) c0, map (objs h3) ds)) r
    \<and> (\<forall>c0 ds. r = Inr (c0, ds) \<longrightarrow>
           (\<forall>a \<in> set_option c0. a < fresh h2) \<and> ds = [fresh h2 ..< fresh h3])"
  proof (cases hn)
    case None
    with True asg assms(4) have rh: "r = Inl NameError" "h3 = h2"
      by (simp_all add: find_cascades_st_def)
    from True pasg None have "find_cascades (view_tree h0 t) (map (objs h2) pd) = Inl NameError"
      by (simp add: find_cascades_def)
    with rh show ?thesis by (simp add: store_extends_refl)
  next
    case (Some b)
    obtain ds h3' where gd: "get_daughters_st t b h2 = (ds, h3')"
      by (cases "get_daughters_st t b h2")
    with True asg Some assms(4) have rh: "r = Inr (c0, ds)" "h3 = h3'"
      by (simp_all add: find_cascades_st_def)
    note g = get_daughters_st_refines [OF assms(1,2) gd]
    from g(1) c0lt have c0v: "map_option (objs h3') c0 = map_option (objs h2) c0"
      by (cases c0) (auto simp: store_extends_def)
    from True pasg Some g(2)
    have "find_cascades (view_tree h0 t) (map (objs h2) pd)
            = Inr (map_option (objs h2) c0, map (objs h3') ds)"
      by (simp add: find_cascades_def)
    with rh g(1) g(3) c0lt c0v show ?thesis by simp
  qed
qed

lemma upt_head:
  assumes "c # cs = [m ..< n]"
  shows "c = m" and "c \<notin> set cs" and "m < n"
proof -
  from assms have mn: "m < n" by (cases "m < n") auto
  with assms have "c # cs = m # [Suc m ..< n]" by (simp add: upt_conv_Cons)
  then have "c = m" "cs = [Suc m ..< n]" by simp_all
  then show "c = m" and "c \<notin> set cs" by auto
  show "m < n" by (rule mn)
qed

lemma merge_and_measure_st_refines:
  assumes "store_extends h2 h3" and "\<forall>a \<in> set_option c0. a < fresh h2"
    and "ds = [fresh h2 ..< fresh h3]"
    and "merge_and_measure_st c0 ds pad h3 = (r, h4)"
  shows "store_extends h2 h4"
    and "merge_and_measure (map_option (objs h3) c0) (map (objs h3) ds) pad = r"
proof (atomize (full), cases ds)
  case Nil
  with assms(1,4) show "store_extends h2 h4
     \<and> merge_and_measure (map_option (objs h3) c0) (map (objs h3) ds) pad = r"
    by (simp add: merge_and_measure_st_def merge_and_measure_def)
next
  case (Cons c cs)
  from assms(3) Cons have up: "c # cs = [fresh h2 ..< fresh h3]" by simp
  note u = upt_head [OF up]
  obtain r1 h4' where mg: "merge_hnl_daughters_st cs (Suc 0) (Some c) h3 = (r1, h4')"
    by (cases "merge_hnl_daughters_st cs (Suc 0) (Some c) h3")
  note m = merge_hnl_daughters_st_later [OF u(2) mg]
  from m have fr: "fresh h4' = fresh h3" and oth: "\<And>a. a \<noteq> c \<Longrightarrow> objs h4' a = objs h3 a"
    and pm: "merge_hnl_daughters (map (objs h3) cs) (Suc 0) (Some (objs h3 c))
               = map_sum id (map_option (objs h4')) r1"
    and rc: "\<And>x. r1 = Inr x \<Longrightarrow> x = Some c"
    by simp_all
  have ext: "store_extends h2 h4'"
    using assms(1) fr oth u(1) by (auto simp: store_extends_def)
  have c0v: "map_option (objs h4') c0 = map_option (objs h3) c0"
    using assms(2) oth u(1) by (cases c0) auto
  have conc: "merge_and_measure_st c0 ds pad h3 =
     (case r1 of
        Inl e \<Rightarrow> (Inl e, h4')
      | Inr casc_1_true \<Rightarrow>
          (case (c0, casc_1_true) of
             (Some a0, Some a1) \<Rightarrow>
               (case py_truediv (I3Calculator_distance (objs h4' a0) (objs h4' a1)) I3Units_m of
                  Inl e \<Rightarrow> (Inl e, h4')
                | Inr v \<Rightarrow> (Inr (VFloat v), h4'))
           | _ \<Rightarrow> (Inl NameError, h4')))"
    using Cons mg by (simp add: merge_and_measure_st_def)
  have pure: "merge_and_measure (map_option (objs h3) c0) (map (objs h3) ds) pad =
     (case map_sum id (map_option (objs h4')) r1 of
        Inl e \<Rightarrow> Inl e
      | Inr casc_1_true \<Rightarrow>
          (case (map_option (objs h3) c0, casc_1_true) of
             (Some p0, Some p1) \<Rightarrow>
               (case py_truediv (I3Calculator_distance p0 p1) I3Units_m of
                  Inl e \<Rightarrow> Inl e
                | Inr v \<Rightarrow> Inr (VFloat v))
           | _ \<Rightarrow> Inl NameError))"
    using Cons pm by (simp add: merge_and_measure_def)
  show "store_extends h2 h4
     \<and> merge_and_measure (map_option (objs h3) c0) (map (objs h3) ds) pad = r"
  proof (cases r1)
    case (Inl e)
    with conc pure assms(4) ext show ?thesis by simp
  next
    case (Inr x)
    with rc have x: "r1 = Inr (Some c)" by simp
    with conc pure assms(4) ext c0v show ?thesis
      by (cases c0) (auto split: sum.splits)
  qed
qed

lemma dbang_try_st_refines:
  assumes "store_extends h0 h" and "\<forall>a \<in> tree_addrs t. a < fresh h0"
    and "dbang_try_st t pad h = (r, h')"
  shows "store_extends h h'" and "dbang_try (view_tree h0 t) pad = r"
proof -
  obtain ps h1 where ps: "primaries_st t h = (ps, h1)" by (cases "primaries_st t h")
  note p = primaries_st_refines [OF assms(1,2) ps]
  have e01: "store_extends h0 h1" using assms(1) p(1) by (rule store_extends_trans)
  show "store_extends h h'" and "dbang_try (view_tree h0 t) pad = r"
  proof (atomize (full), cases ps)
    case Nil
    with p(2) have "primaries (view_tree h0 t) = []" by simp
    with Nil ps assms(3) p(1) show "store_extends h h' \<and> dbang_try (view_tree h0 t) pad = r"
      by (simp add: dbang_try_st_def dbang_try_def)
  next
    case (Cons a as)
    with p(2) have pv: "primaries (view_tree h0 t) = objs h1 a # map (objs h1) as" by simp
    obtain pd h2 where gd: "get_daughters_st t a h1 = (pd, h2)"
      by (cases "get_daughters_st t a h1")
    note g = get_daughters_st_refines [OF e01 assms(2) gd]
    have e02: "store_extends h0 h2" using e01 g(1) by (rule store_extends_trans)
    have e2: "store_extends h h2" using p(1) g(1) by (rule store_extends_trans)
    from g(3) have pdlt: "\<forall>a \<in> set pd. a < fresh h2" by simp
    obtain r3 h3 where fc: "find_cascades_st t pd h2 = (r3, h3)"
      by (cases "find_cascades_st t pd h2")
    note c = find_cascades_st_refines [OF e02 assms(2) pdlt fc]
    from g(2) c(2) have pfc: "find_cascades (view_tree h0 t) (get_daughters (view_tree h0 t) (objs h1 a))
           = map_sum id (\<lambda>(c0, ds). (map_option (objs h3) c0, map (objs h3) ds)) r3" by simp
    show "store_extends h h' \<and> dbang_try (view_tree h0 t) pad = r"
    proof (cases r3)
      case (Inl e)
      with Cons ps gd fc assms(3) have rh: "r = Inl e" "h' = h3"
        by (simp_all add: dbang_try_st_def)
      from pv pfc Inl have "dbang_try (view_tree h0 t) pad = Inl e"
        by (simp add: dbang_try_def)
      moreover have "store_extends h h3" using e2 c(1) by (rule store_extends_trans)
      ultimately show ?thesis using rh by simp
    next
      case (Inr x)
      obtain c0 ds where x: "x = (c0, ds)" by (cases x)
      with Inr Cons ps gd fc assms(3) have run: "merge_and_measure_st c0 ds pad h3 = (r, h')"
        by (simp add: dbang_try_st_def)
      from c(3) Inr x have c0lt: "\<forall>a \<in> set_option c0. a < fresh h2"
        and dsu: "ds = [fresh h2 ..< fresh h3]" by simp_all
      note m = merge_and_measure_st_refines [OF c(1) c0lt dsu run]
      from pv pfc Inr x
      have "dbang_try (view_tree h0 t) pad
              = merge_and_measure (map_option (objs h3) c0) (map (objs h3) ds) pad"
        by (simp add: dbang_try_def)
      with m(2) have "dbang_try (view_tree h0 t) pad = r" by simp
      moreover have "store_extends h h'" using e2 m(1) by (rule store_extends_trans)
      ultimately show ?thesis by simp
    qed
  qed
qed

lemma extract_dbang_decay_length_st_refines:
  assumes "owned f h0" and "store_extends h0 h"
    and "extract_dbang_decay_length_st f pad h = (r, h')"
  shows "store_extends h h'" and "extract_dbang_decay_length (view h0 f) pad = r"
proof (atomize (full), cases "I3MCTree f")
  case None
  with assms(3) show "store_extends h h' \<and> extract_dbang_decay_length (view h0 f) pad = r"
    by (auto simp: extract_dbang_decay_length_st_def extract_dbang_decay_length_def view_simps
          lookup_def store_extends_refl)
next
  case (Some t)
  with assms(1) have own: "\<forall>a \<in> tree_addrs t. a < fresh h0" by (rule owned_tree)
  obtain r1 h1 where run: "dbang_try_st t pad h = (r1, h1)" by (cases "dbang_try_st t pad h")
  note d = dbang_try_st_refines [OF assms(2) own run]
  from Some run assms(3) have "h' = h1" "r = Inr (case r1 of Inl e \<Rightarrow> pad | Inr v \<Rightarrow> v)"
    by (auto simp: extract_dbang_decay_length_st_def lookup_def split: sum.splits)
  with d Some show "store_extends h h' \<and> extract_dbang_decay_length (view h0 f) pad = r"
    by (simp add: extract_dbang_decay_length_def view_simps lookup_def)
qed

lemma flags_view:
  "filter_flags (view h f) out = filter_flags f out"
  "oscnext_flags (view h f) out = oscnext_flags f out"
  by (simp_all add: filter_flags_def oscnext_flags_def view_simps cong: option.case_cong)

lemma call_st_no_truth:
  assumes "\<not> (\<exists>st hdr. find_data_type (frame_is_montecarlo f) (i3_file self) = Inr st
             \<and> I3EventHeader f = Some hdr \<and> sub_event_stream hdr = ''InIceSplit''
             \<and> frame_is_montecarlo f \<and> \<not> frame_is_noise f)"
  shows "call_st cp self f pad h = (call cp self (view h0 f) pad, h)"
proof (cases "find_data_type (frame_is_montecarlo f) (i3_file self)")
  case (Inl e)
  then show ?thesis by (simp add: call_st_def call_def view_simps)
next
  case (Inr st)
  show ?thesis
  proof (cases "I3EventHeader f")
    case None
    with Inr show ?thesis by (simp add: call_st_def call_def view_simps lookup_def)
  next
    case (Some hdr)
    show ?thesis
    proof (cases "sub_event_stream hdr = ''InIceSplit''")
      case False
      with Inr Some show ?thesis by (simp add: call_st_def call_def view_simps lookup_def)
    next
      case True
      with assms Inr Some have "(frame_is_montecarlo f \<and> \<not> frame_is_noise f) = False" by simp
      with Inr Some True show ?thesis
        by (simp add: call_st_def call_def view_simps flags_view lookup_def Let_def
              del: de_Morgan_conj not_not)
    qed
  qed
qed

lemma call_st_refines:
  assumes "owned f h0" and "store_extends h0 h" and "call_st cp self f pad h = (r, h')"
  shows "store_extends h h'" and "call cp self (view h0 f) pad = r"
proof (atomize (full), cases "\<exists>st hdr. find_data_type (frame_is_montecarlo f) (i3_file self) = Inr st
             \<and> I3EventHeader f = Some hdr \<and> sub_event_stream hdr = ''InIceSplit''
             \<and> frame_is_montecarlo f \<and> \<not> frame_is_noise f")
  case False
  from call_st_no_truth [OF False, of cp pad h h0] assms(3)
  show "store_extends h h' \<and> call cp self (view h0 f) pad = r"
    by (simp add: store_extends_refl)
next
  case True
  then obtain st hdr where st: "find_data_type (frame_is_montecarlo f) (i3_file self) = Inr st"
    and hdr: "I3EventHeader f = Some hdr" and split: "sub_event_stream hdr = ''InIceSplit''"
    and mc: "frame_is_montecarlo f" and nn: "\<not> frame_is_noise f" by blast
  define out0 where "out0 = oscnext_flags f (filter_flags f (initial_output hdr st pad))"
  define fin where "fin p it el dl et inel =
     (let out = primary_update out0 p it el dl et inel in
      case abs_pid_is_13 out of
        Inl e \<Rightarrow> Inl e
      | Inr False \<Rightarrow> Inr out
      | Inr True \<Rightarrow>
          (let out = out(''track_length'' \<mapsto> VFloat (length_p p)) in
           case muon_stopped cp out (borders self) 100 100 of
             Inl e \<Rightarrow> Inl e
           | Inr muon_final \<Rightarrow> Inr (muon_update out muon_final)))" for p it el dl et inel
  have pure: "call cp self (view h0 f) pad =
     (case get_primary_particle_interaction_type_and_elasticity (view h0 f) st (VInt (- 1)) of
        Inl e \<Rightarrow> Inl e
      | Inr (primary, it, el) \<Rightarrow>
     case get_primary_track_energy_and_inelasticity (view h0 f) of
        Inl e \<Rightarrow> Inl e
      | Inr (et, inel) \<Rightarrow>
     case primary of
        None \<Rightarrow> Inl AttributeError
      | Some p \<Rightarrow>
     case extract_dbang_decay_length (view h0 f) pad of
        Inl e \<Rightarrow> Inl e
      | Inr dl \<Rightarrow> fin p it el dl et inel)"
    using st hdr split mc nn unfolding fin_def out0_def
    by (simp add: call_def view_simps flags_view lookup_def Let_def)
  define fin_st where "fin_st a it el dl et inel h2 h3 =
     (let out = primary_update out0 (objs h2 a) it el dl et inel in
      case abs_pid_is_13 out of
        Inl e \<Rightarrow> (Inl e, h3)
      | Inr False \<Rightarrow> (Inr out, h3)
      | Inr True \<Rightarrow>
          (let out = out(''track_length'' \<mapsto> VFloat (length_p (objs h3 a))) in
           case muon_stopped cp out (borders self) 100 100 of
             Inl e \<Rightarrow> (Inl e, h3)
           | Inr muon_final \<Rightarrow> (Inr (muon_update out muon_final), h3)))"
    for a it el dl et inel and h2 h3 :: store
  have conc: "call_st cp self f pad h =
     (case get_primary_st f st (VInt (- 1)) h of
        (Inl e, h1) \<Rightarrow> (Inl e, h1)
      | (Inr (primary, it, el), h1) \<Rightarrow>
     case track_energy_st f h1 of
        (Inl e, h2) \<Rightarrow> (Inl e, h2)
      | (Inr (et, inel), h2) \<Rightarrow>
     case primary of
        None \<Rightarrow> (Inl AttributeError, h2)
      | Some a \<Rightarrow>
     case extract_dbang_decay_length_st f pad h2 of
        (Inl e, h3) \<Rightarrow> (Inl e, h3)
      | (Inr dl, h3) \<Rightarrow> fin_st a it el dl et inel h2 h3)"
    using st hdr split mc nn unfolding fin_st_def out0_def
    by (simp add: call_st_def lookup_def Let_def)
  have fin_eq: "fin_st a it el dl et inel h2 h3 = (fin (objs h1 a) it el dl et inel, h3)"
    if "objs h2 a = objs h1 a" and "objs h3 a = objs h1 a"
    for a it el dl et inel and h1 h2 h3 :: store
    using that by (simp add: fin_st_def fin_def Let_def split: sum.splits bool.splits)
  obtain r1 h1 where gp: "get_primary_st f st (VInt (- 1)) h = (r1, h1)"
    by (cases "get_primary_st f st (VInt (- 1)) h")
  note p = get_primary_st_refines [OF assms(1,2) gp]
  have e01: "store_extends h0 h1" using assms(2) p(1) by (rule store_extends_trans)
  show "store_extends h h' \<and> call cp self (view h0 f) pad = r"
  proof (cases r1)
    case (Inl e)
    with conc gp assms(3) have "r = Inl e" "h' = h1" by simp_all
    moreover from pure p(2) Inl have "call cp self (view h0 f) pad = Inl e" by simp
    ultimately show ?thesis using p(1) by simp
  next
    case (Inr x)
    obtain prim it el where x: "x = (prim, it, el)" by (cases x)
    from p(2) Inr x
    have pgp: "get_primary_particle_interaction_type_and_elasticity (view h0 f) st (VInt (- 1))
                 = Inr (map_option (objs h1) prim, it, el)" by simp
    obtain r2 h2 where te: "track_energy_st f h1 = (r2, h2)" by (cases "track_energy_st f h1")
    note t = track_energy_st_refines [OF assms(1) e01 te]
    have e02: "store_extends h0 h2" using e01 t(1) by (rule store_extends_trans)
    have e2: "store_extends h h2" using p(1) t(1) by (rule store_extends_trans)
    show ?thesis
    proof (cases r2)
      case (Inl e)
      with conc gp Inr x te assms(3) have "r = Inl e" "h' = h2" by simp_all
      moreover from pure pgp t(2) Inl have "call cp self (view h0 f) pad = Inl e" by simp
      ultimately show ?thesis using e2 by simp
    next
      case r2: (Inr y)
      obtain et inel where y: "y = (et, inel)" by (cases y)
      show ?thesis
      proof (cases prim)
        case None
        with conc gp Inr x te r2 y assms(3) have "r = Inl AttributeError" "h' = h2" by simp_all
        moreover from pure pgp t(2) r2 y None
        have "call cp self (view h0 f) pad = Inl AttributeError" by simp
        ultimately show ?thesis using e2 by simp
      next
        case (Some a)
        with p(3) Inr x have alt: "a < fresh h1" by simp
        obtain r3 h3 where dl: "extract_dbang_decay_length_st f pad h2 = (r3, h3)"
          by (cases "extract_dbang_decay_length_st f pad h2")
        note d = extract_dbang_decay_length_st_refines [OF assms(1) e02 dl]
        have e3: "store_extends h h3" using e2 d(1) by (rule store_extends_trans)
        have e13: "store_extends h1 h3" using t(1) d(1) by (rule store_extends_trans)
        from alt t(1) have a2: "objs h2 a = objs h1 a" by (simp add: store_extends_def)
        from alt e13 have a3: "objs h3 a = objs h1 a" by (simp add: store_extends_def)
        show ?thesis
        proof (cases r3)
          case (Inl e)
          with conc gp Inr x te r2 y Some dl assms(3) have "r = Inl e" "h' = h3" by simp_all
          moreover from pure pgp t(2) r2 y Some d(2) Inl
          have "call cp self (view h0 f) pad = Inl e" by simp
          ultimately show ?thesis using e3 by simp
        next
          case r3: (Inr v)
          from conc gp Inr x te r2 y Some dl r3 assms(3) fin_eq [OF a2 a3]
          have "r = fin (objs h1 a) it el v et inel" "h' = h3" by simp_all
          moreover from pure pgp t(2) r2 y Some d(2) r3
          have "call cp self (view h0 f) pad = fin (objs h1 a) it el v et inel" by simp
          ultimately show ?thesis using e3 by simp
        qed
      qed
    qed
  qed
qed

lemma dbang_store_objs:
  "objs dbang_store 0 = example_particle 1 (OtherType 16) 16 (Fin 100) 0"
  "objs dbang_store (Suc 0) = example_particle 2 Hadrons (- 2000001006) (Fin 40) 0"
  "objs dbang_store 2 = example_particle 3 (OtherType 9900016) 9900016 (Fin 60) 0"
  "objs dbang_store 3 = example_particle 4 (OtherType 11) 11 (Fin 5) 1"
  "objs dbang_store 4 = example_particle 5 (OtherType 11) 11 (Fin 7) 1"
  "fresh dbang_store = 5"
  by (simp_all add: dbang_store_def) (simp_all add: dbang_tree_def Let_def)

lemma dbang_record_owned: "owned dbang_record dbang_store"
  by (simp add: owned_def frame_addrs_def tree_addrs_def dbang_record_def dbang_store_def)

lemma view_dbang_record:
  "view dbang_store dbang_record = mc_frame ''InIceSplit'' None (Some (dbang_tree (OtherType 9900016)))"
  by (simp add: view_def view_tree_def dbang_record_def mc_frame_def dbang_store_objs
        dbang_tree_def Let_def)

text \<open>
  On the double cascade the merge loop does write: the first daughter of the candidate, the
  copy at address 8, ends with the energy 5 + 7, while the particles of the tree at the
  addresses 3 and 4 keep theirs.
\<close>

lemma merge_writes_to_copy:
  "map (\<lambda>a. energy (objs (snd (extract_dbang_decay_length_st dbang_record (VInt (- 1)) dbang_store)) a))
     [3, 4, 8, 9] = [Fin 5, Fin 7, Fin 12, Fin 7]"
  "fst (extract_dbang_decay_length_st dbang_record (VInt (- 1)) dbang_store) = Inr (VFloat (Fin 1))"
  by (simp_all add: extract_dbang_decay_length_st_def dbang_try_st_def find_cascades_st_def
        merge_and_measure_st_def primaries_st_def get_daughters_st_def new_object_def
        set_energy_def daughters_of_def lookup_def dbang_record_def dbang_store_objs
        example_particle_def pos_eq_def I3Calculator_distance_def I3Units_m_def Let_def)

text \<open>
  C8: a call of the extractor on a record whose particles the caller owns leaves every
  object that existed before the call as it was (the store after the call extends the
  store before it), so the record and its tree, read after the call, hold the particles
  they held before; a second call, on the store that the first one left, gives the result
  of the first, an exception or a record; and this result is the one of the function \<open>call\<close>
  on the particles of the record. The writes of the merge loop go to the copies that
  \<^verbatim>\<open>get_daughters\<close> handed out.
\<close>

theorem extraction_idempotent_no_mutation:
  assumes "owned frame h"
    and "call_st contains_point self frame padding_value h = (r, h')"
  shows "store_extends h h' \<and> view h' frame = view h frame
       \<and> fst (call_st contains_point self frame padding_value h') = r
       \<and> call contains_point self (view h frame) padding_value = r"
proof -
  note first = call_st_refines [OF assms(1) store_extends_refl assms(2)]
  note v = view_extends [OF first(1) assms(1)]
  obtain r2 h2 where second: "call_st contains_point self frame padding_value h' = (r2, h2)"
    by (cases "call_st contains_point self frame padding_value h'")
  from call_st_refines [OF assms(1) first(1) second] first(2) have "r2 = r" by simp
  with second first v(1) show ?thesis by simp
qed

theorem extraction_idempotent_no_mutation_witness:
  "owned dbang_record dbang_store
   \<and> store_extends dbang_store
       (snd (call_st example_point_test example_extractor dbang_record (VInt (- 1)) dbang_store))
   \<and> view (snd (call_st example_point_test example_extractor dbang_record (VInt (- 1)) dbang_store))
       dbang_record = view dbang_store dbang_record
   \<and> fst (call_st example_point_test example_extractor dbang_record (VInt (- 1))
       (snd (call_st example_point_test example_extractor dbang_record (VInt (- 1)) dbang_store)))
     = fst (call_st example_point_test example_extractor dbang_record (VInt (- 1)) dbang_store)
   \<and> call example_point_test example_extractor (view dbang_store dbang_record) (VInt (- 1))
     = fst (call_st example_point_test example_extractor dbang_record (VInt (- 1)) dbang_store)"
  using extraction_idempotent_no_mutation [OF dbang_record_owned surjective_pairing,
      of example_point_test example_extractor "VInt (- 1)"] dbang_record_owned
  by simp

end
